theory Spec2Isabelle
  imports Main
begin

section \<open>PhonixCast: a shallow embedding of \<^verbatim>\<open>src/app/main.py\<close>\<close>

subsection \<open>Python strings\<close>

text \<open>
  A Python \<^verbatim>\<open>str\<close> is a sequence of Unicode code points, so a string is a list of
  natural numbers here. String constants of the source are written as HOL string literals
  and converted by \<open>py\<close>; the few non-ASCII letters of the messages are given by their
  code point.
\<close>

type_synonym pystr = "nat list"

abbreviation py :: "string \<Rightarrow> pystr" where
  "py s \<equiv> map of_char s"

text \<open>\<^verbatim>\<open>str.isspace\<close> on one code point (the whitespace of \<^verbatim>\<open>str.split()\<close> and
  \<^verbatim>\<open>str.strip()\<close>).\<close>

definition isspace :: "nat \<Rightarrow> bool" where
  "isspace c =
     ((9 \<le> c \<and> c \<le> 13) \<or> (28 \<le> c \<and> c \<le> 32) \<or> c = 133 \<or> c = 160 \<or> c = 5760
      \<or> (8192 \<le> c \<and> c \<le> 8202) \<or> c = 8232 \<or> c = 8233 \<or> c = 8239 \<or> c = 8287
      \<or> c = 12288)"

text \<open>The line boundaries of \<^verbatim>\<open>str.splitlines()\<close>; the pair CR LF counts as one.\<close>

definition is_linebreak :: "nat \<Rightarrow> bool" where
  "is_linebreak c =
     ((10 \<le> c \<and> c \<le> 13) \<or> (28 \<le> c \<and> c \<le> 30) \<or> c = 133 \<or> c = 8232 \<or> c = 8233)"

text \<open>\<^verbatim>\<open>str.splitlines()\<close>: \<open>cur\<close> is the line read so far. A last line is produced
  only when it is not empty, so a final line break opens no further line.\<close>

fun splitlines_from :: "pystr \<Rightarrow> pystr \<Rightarrow> pystr list" where
  "splitlines_from cur [] = (if cur = [] then [] else [cur])"
| "splitlines_from cur [c] =
     (if is_linebreak c then [cur] else [cur @ [c]])"
| "splitlines_from cur (c # d # cs) =
     (if c = 13 \<and> d = 10 then cur # splitlines_from [] cs
      else if is_linebreak c then cur # splitlines_from [] (d # cs)
      else splitlines_from (cur @ [c]) (d # cs))"

definition splitlines :: "pystr \<Rightarrow> pystr list" where
  "splitlines s = splitlines_from [] s"

text \<open>\<^verbatim>\<open>str.split()\<close> without arguments: the maximal runs of non-whitespace, in
  order; \<open>cur\<close> is the field read so far.\<close>

fun split_from :: "pystr \<Rightarrow> pystr \<Rightarrow> pystr list" where
  "split_from cur [] = (if cur = [] then [] else [cur])"
| "split_from cur (c # cs) =
     (if isspace c then (if cur = [] then split_from [] cs else cur # split_from [] cs)
      else split_from (cur @ [c]) cs)"

definition split :: "pystr \<Rightarrow> pystr list" where
  "split s = split_from [] s"

text \<open>\<^verbatim>\<open>str.strip()\<close> without arguments.\<close>

definition strip :: "pystr \<Rightarrow> pystr" where
  "strip s = rev (dropWhile isspace (rev (dropWhile isspace s)))"

text \<open>\<^verbatim>\<open>str(n)\<close> for an integer: decimal digits, a minus sign for a negative one.\<close>

fun nat_digits :: "nat \<Rightarrow> pystr" where
  "nat_digits n = (if n < 10 then [48 + n] else nat_digits (n div 10) @ [48 + n mod 10])"

declare nat_digits.simps [simp del]

definition str_int :: "int \<Rightarrow> pystr" where
  "str_int i = (if i < 0 then 45 # nat_digits (nat (- i)) else nat_digits (nat i))"

subsection \<open>The profile table\<close>

record Profile =
  name :: pystr
  bitrate :: pystr
  max_fps :: int
  codec :: pystr

text \<open>\<^verbatim>\<open>PROFILES\<close>, a dictionary literal: the entries in insertion order, which is the
  order \<^verbatim>\<open>PROFILES.values()\<close> walks them in.\<close>

definition PROFILES :: "(pystr \<times> Profile) list" where
  "PROFILES =
     [(py ''balanced'',
         \<lparr>name = py ''balanced'', bitrate = py ''8M'', max_fps = 60, codec = py ''h264''\<rparr>),
      (py ''low-latency'',
         \<lparr>name = py ''low-latency'', bitrate = py ''6M'', max_fps = 45, codec = py ''h264''\<rparr>),
      (py ''ultra-low-latency'',
         \<lparr>name = py ''ultra-low-latency'', bitrate = py ''4M'', max_fps = 30,
          codec = py ''h264''\<rparr>)]"

subsection \<open>Exceptions, processes and the observable trace\<close>

text \<open>The exceptions the program raises itself: \<^verbatim>\<open>RuntimeError(message)\<close>, and the
  \<^verbatim>\<open>KeyError(key)\<close> of a dictionary subscript with an absent key.\<close>

datatype exc = RuntimeError pystr | KeyError pystr

text \<open>The subscript \<^verbatim>\<open>PROFILES[name]\<close>.\<close>

definition profiles_getitem :: "pystr \<Rightarrow> exc + Profile" where
  "profiles_getitem n = (case map_of PROFILES n of None \<Rightarrow> Inl (KeyError n) | Some p \<Rightarrow> Inr p)"

text \<open>The three fields of \<^verbatim>\<open>subprocess.CompletedProcess\<close> the program reads.\<close>

record CompletedProcess =
  returncode :: int
  stdout :: pystr
  stderr :: pystr

text \<open>
  What the program does to the outside, in order: a child process run to completion (its
  command line, whether its output was captured, and what it returned), a line printed to
  standard output or to the error stream, and the help text of the argument parser.
\<close>

datatype event =
    Run "pystr list" bool CompletedProcess
  | Print pystr
  | PrintErr pystr
  | PrintHelp

text \<open>
  The outside itself: which binaries \<^verbatim>\<open>shutil.which\<close> finds, and what a child process
  returns for a command line, which may depend on everything that happened before.
\<close>

record world =
  on_path :: "pystr \<Rightarrow> bool"
  answer :: "event list \<Rightarrow> pystr list \<Rightarrow> CompletedProcess"

text \<open>The parsed command line (\<^verbatim>\<open>argparse.Namespace\<close>); \<open>None\<close> is an option that was
  not given.\<close>

record args =
  command :: pystr
  profile :: pystr
  serial :: "pystr option"
  max_size :: "int option"
  turn_screen_off :: bool
  stay_awake :: bool
  no_audio :: bool

subsection \<open>The messages and the fixed command line\<close>

definition adb_devices_cmd :: "pystr list" where
  "adb_devices_cmd = [py ''adb'', py ''devices'']"

definition no_devices_message :: pystr where
  "no_devices_message =
     py ''No se encontraron dispositivos Android en modo '' @ [39] @ py ''device'' @ [39] @ py ''.''"

definition unavailable_message :: "pystr \<Rightarrow> pystr" where
  "unavailable_message device =
     py ''El dispositivo solicitado ('' @ device @ py '') no est'' @ [225] @ py '' disponible.''"

definition starting_message :: "Profile \<Rightarrow> pystr \<Rightarrow> pystr" where
  "starting_message p device =
     py ''Iniciando transmisi'' @ [243] @ py ''n con perfil '' @ [39] @ name p @ [39]
     @ py '' en dispositivo '' @ device @ py ''...''"

definition restore_warning :: pystr where
  "restore_warning =
     py ''Advertencia: no se pudo restaurar stay_awake autom'' @ [225] @ py ''ticamente.''"

definition missing_binary_message :: "pystr \<Rightarrow> pystr" where
  "missing_binary_message binary =
     py ''No se encontr'' @ [243] @ py '' '' @ [39] @ binary @ [39] @ py '' en PATH.''"

definition query_failed_message :: "pystr \<Rightarrow> pystr" where
  "query_failed_message err = py ''Fallo ejecutando adb devices: '' @ strip err"

definition stay_awake_failed_message :: pystr where
  "stay_awake_failed_message = py ''No se pudo configurar stay_awake en el dispositivo.''"

subsection \<open>The functions of the program\<close>

text \<open>Every function that acts on the outside takes the trace so far and returns its
  result, or the exception it raised, with the trace extended.\<close>

definition require_binary :: "world \<Rightarrow> pystr \<Rightarrow> event list \<Rightarrow> (exc + unit) \<times> event list" where
  "require_binary w binary t =
     (if \<not> on_path w binary
      then (Inl (RuntimeError (missing_binary_message binary)), t)
      else (Inr (), t))"

definition run_command :: "world \<Rightarrow> pystr list \<Rightarrow> bool \<Rightarrow> event list \<Rightarrow> CompletedProcess \<times> event list" where
  "run_command w cmd capture t = (let result = answer w t cmd in (result, t @ [Run cmd capture result]))"

text \<open>The loop of \<^verbatim>\<open>list_devices\<close> over the lines; \<open>devices\<close> is the list it appends to.\<close>

fun devices_loop :: "pystr list \<Rightarrow> pystr list \<Rightarrow> pystr list" where
  "devices_loop devices [] = devices"
| "devices_loop devices (line # lines) =
     (let parts = split (strip line)
      in if length parts \<ge> 2 \<and> parts ! 1 = py ''device''
         then devices_loop (devices @ [parts ! 0]) lines
         else devices_loop devices lines)"

text \<open>The parsing half of \<^verbatim>\<open>list_devices\<close>, from the captured text on.\<close>

definition parse_devices :: "pystr \<Rightarrow> pystr list" where
  "parse_devices out = devices_loop [] (drop 1 (splitlines out))"

definition list_devices :: "world \<Rightarrow> event list \<Rightarrow> (exc + pystr list) \<times> event list" where
  "list_devices w t =
     (case run_command w adb_devices_cmd True t of
        (result, t1) \<Rightarrow>
          if returncode result \<noteq> 0
          then (Inl (RuntimeError (query_failed_message (stderr result))), t1)
          else (Inr (parse_devices (stdout result)), t1))"

definition stay_awake_cmd :: "pystr \<Rightarrow> bool \<Rightarrow> pystr list" where
  "stay_awake_cmd device enabled =
     [py ''adb'', py ''-s'', device, py ''shell'', py ''settings'', py ''put'', py ''global'',
      py ''stay_on_while_plugged_in'', (if enabled then py ''3'' else py ''0'')]"

definition set_stay_awake :: "world \<Rightarrow> pystr \<Rightarrow> bool \<Rightarrow> event list \<Rightarrow> (exc + unit) \<times> event list" where
  "set_stay_awake w device enabled t =
     (case run_command w (stay_awake_cmd device enabled) False t of
        (result, t1) \<Rightarrow>
          if returncode result \<noteq> 0
          then (Inl (RuntimeError stay_awake_failed_message), t1)
          else (Inr (), t1))"

text \<open>The command line of the mirroring tool, as \<^verbatim>\<open>start_stream\<close> assembles it. The test
  on \<^verbatim>\<open>args.max_size\<close> is Python's truth value of an optional integer: \<^verbatim>\<open>None\<close> and 0
  are false.\<close>

definition mirror_cmd :: "pystr \<Rightarrow> Profile \<Rightarrow> args \<Rightarrow> pystr list" where
  "mirror_cmd device p a =
     [py ''scrcpy'', py ''--serial'', device, py ''--video-bit-rate'', bitrate p,
      py ''--max-fps'', str_int (max_fps p), py ''--video-codec'', codec p]
     @ (case max_size a of
          None \<Rightarrow> []
        | Some n \<Rightarrow> if n \<noteq> 0 then [py ''--max-size'', str_int n] else [])
     @ (if turn_screen_off a then [py ''--turn-screen-off''] else [])
     @ (if no_audio a then [py ''--no-audio''] else [])"

text \<open>\<^verbatim>\<open>args.serial or devices[0]\<close>, evaluated where \<open>devices\<close> is known not to be empty:
  \<^verbatim>\<open>None\<close> and the empty string are false.\<close>

definition serial_or_first :: "pystr option \<Rightarrow> pystr list \<Rightarrow> pystr" where
  "serial_or_first s devices =
     (case s of None \<Rightarrow> hd devices | Some x \<Rightarrow> if x \<noteq> [] then x else hd devices)"

text \<open>The end of \<^verbatim>\<open>start_stream\<close>: restoring the setting, where a \<^verbatim>\<open>RuntimeError\<close> is
  caught and becomes a warning.\<close>

definition restore_stay_awake :: "world \<Rightarrow> pystr \<Rightarrow> event list \<Rightarrow> event list" where
  "restore_stay_awake w device t =
     (case set_stay_awake w device False t of
        (Inl (RuntimeError m), t1) \<Rightarrow> t1 @ [PrintErr restore_warning]
      | (_, t1) \<Rightarrow> t1)"

text \<open>\<^verbatim>\<open>start_stream\<close> from the command line on (lines 84 to 117).\<close>

definition stream :: "world \<Rightarrow> args \<Rightarrow> Profile \<Rightarrow> pystr \<Rightarrow> event list \<Rightarrow> (exc + int) \<times> event list" where
  "stream w a p device t =
     (let cmd = mirror_cmd device p a;
          t1 = t @ [Print (starting_message p device)]
      in case run_command w cmd False t1 of
           (result, t2) \<Rightarrow>
             (Inr (returncode result),
              if stay_awake a then restore_stay_awake w device t2 else t2))"

definition start_stream :: "world \<Rightarrow> args \<Rightarrow> event list \<Rightarrow> (exc + int) \<times> event list" where
  "start_stream w a t =
     (case profiles_getitem (profile a) of
        Inl e \<Rightarrow> (Inl e, t)
      | Inr p \<Rightarrow>
         (case list_devices w t of
            (Inl e, t1) \<Rightarrow> (Inl e, t1)
          | (Inr devices, t1) \<Rightarrow>
              if devices = []
              then (Inr 2, t1 @ [PrintErr no_devices_message])
              else
                (let device = serial_or_first (serial a) devices
                 in if device \<notin> set devices
                    then (Inr 2, t1 @ [PrintErr (unavailable_message device)])
                    else if stay_awake a
                    then (case set_stay_awake w device True t1 of
                            (Inl e, t2) \<Rightarrow> (Inl e, t2)
                          | (Inr _, t2) \<Rightarrow> stream w a p device t2)
                    else stream w a p device t1)))"

text \<open>The loop of \<^verbatim>\<open>print_profiles\<close> and the one of \<^verbatim>\<open>print_devices\<close>.\<close>

definition profile_line :: "Profile \<Rightarrow> pystr" where
  "profile_line p =
     py ''- '' @ name p @ py '': bitrate='' @ bitrate p @ py '', max_fps='' @ str_int (max_fps p)
     @ py '', codec='' @ codec p"

definition print_profiles :: "event list \<Rightarrow> (exc + int) \<times> event list" where
  "print_profiles t =
     (Inr 0, t @ [Print (py ''Perfiles disponibles:'')]
               @ map (\<lambda>p. Print (profile_line p)) (map snd PROFILES))"

definition print_devices :: "world \<Rightarrow> event list \<Rightarrow> (exc + int) \<times> event list" where
  "print_devices w t =
     (case list_devices w t of
        (Inl e, t1) \<Rightarrow> (Inl e, t1)
      | (Inr devices, t1) \<Rightarrow>
          if devices = []
          then (Inr 0, t1 @ [Print (py ''Sin dispositivos conectados.'')])
          else (Inr 0, t1 @ [Print (py ''Dispositivos detectados:'')]
                          @ map (\<lambda>serial. Print (py ''- '' @ serial)) devices))"

text \<open>The body of the \<^verbatim>\<open>try\<close> block of \<^verbatim>\<open>main\<close>, and \<^verbatim>\<open>main\<close> with its handler, which
  catches \<^verbatim>\<open>RuntimeError\<close> and nothing else.\<close>

definition main_try :: "world \<Rightarrow> args \<Rightarrow> event list \<Rightarrow> (exc + int) \<times> event list" where
  "main_try w a t =
     (case (if command a = py ''devices'' \<or> command a = py ''start''
            then require_binary w (py ''adb'') t else (Inr (), t)) of
        (Inl e, t1) \<Rightarrow> (Inl e, t1)
      | (Inr _, t1) \<Rightarrow>
         (case (if command a = py ''start''
                then require_binary w (py ''scrcpy'') t1 else (Inr (), t1)) of
            (Inl e, t2) \<Rightarrow> (Inl e, t2)
          | (Inr _, t2) \<Rightarrow>
              if command a = py ''profiles'' then print_profiles t2
              else if command a = py ''devices'' then print_devices w t2
              else if command a = py ''start'' then start_stream w a t2
              else (Inr 1, t2 @ [PrintHelp])))"

definition main :: "world \<Rightarrow> args \<Rightarrow> event list \<Rightarrow> (exc + int) \<times> event list" where
  "main w a t =
     (case main_try w a t of
        (Inl (RuntimeError m), t1) \<Rightarrow> (Inr 1, t1 @ [PrintErr (py ''Error: '' @ m)])
      | r \<Rightarrow> r)"

subsection \<open>Notions of the specification\<close>

text \<open>
  The Device Directory in the specification's words: a line is a ready device when it has at
  least two whitespace-separated fields and the second is the token \<^verbatim>\<open>device\<close>; the
  directory is the first field of every such line after the first line, in order.
\<close>

definition ready_line :: "pystr \<Rightarrow> bool" where
  "ready_line l = (2 \<le> length (split l) \<and> split l ! 1 = py ''device'')"

definition ready_serials :: "pystr \<Rightarrow> pystr list" where
  "ready_serials out = map (\<lambda>l. split l ! 0) (filter ready_line (drop 1 (splitlines out)))"

text \<open>The two sample lines of the specification, with tabulators between the fields.\<close>

definition sample_ready :: pystr where
  "sample_ready = py ''ABC123'' @ [9] @ py ''device'' @ [9] @ py ''usb''"

definition sample_unauthorized :: pystr where
  "sample_unauthorized = py ''XYZ999'' @ [9] @ py ''unauthorized'' @ [9] @ py ''usb''"

text \<open>An invocation of the mirroring tool in a trace: a child process whose program is
  \<^verbatim>\<open>scrcpy\<close>.\<close>

fun mirror_run :: "event \<Rightarrow> bool" where
  "mirror_run (Run cmd capture result) = (take 1 cmd = [py ''scrcpy''])"
| "mirror_run e = False"

text \<open>A message names a serial when the serial occurs in it, as a contiguous part.\<close>

fun occurs_in :: "pystr \<Rightarrow> pystr \<Rightarrow> bool" where
  "occurs_in x [] = (x = [])"
| "occurs_in x (c # cs) = (take (length x) (c # cs) = x \<or> occurs_in x cs)"

text \<open>The command lines run in a trace, in order.\<close>

fun commands_run :: "event list \<Rightarrow> pystr list list" where
  "commands_run [] = []"
| "commands_run (Run cmd capture result # es) = cmd # commands_run es"
| "commands_run (e # es) = commands_run es"

subsection \<open>Sample inputs\<close>

text \<open>A listing as the bridge tool prints it: its header line, the two sample lines, each
  ended by a line feed.\<close>

definition adb_header :: pystr where
  "adb_header = py ''List of devices attached''"

definition sample_listing :: pystr where
  "sample_listing = adb_header @ [10] @ sample_ready @ [10] @ sample_unauthorized @ [10]"

text \<open>A listing with a device that is not ready first and two ready devices after it.\<close>

definition sample_second :: pystr where
  "sample_second = py ''DEF456'' @ [9] @ py ''device''"

definition two_listing :: pystr where
  "two_listing =
     adb_header @ [10] @ sample_unauthorized @ [10] @ sample_ready @ [10] @ sample_second @ [10]"

text \<open>
  A world with both tools installed, where the device listing exits with 0 and prints
  \<open>listing\<close>, the mirroring tool exits with \<open>mr\<close>, the setting is switched on with exit
  code \<open>en\<close> and switched off with exit code \<open>dis\<close>.
\<close>

definition sample_world :: "pystr \<Rightarrow> int \<Rightarrow> int \<Rightarrow> int \<Rightarrow> world" where
  "sample_world listing en mr dis =
     \<lparr>on_path = (\<lambda>binary. True),
      answer = (\<lambda>t cmd.
        if cmd = adb_devices_cmd then \<lparr>returncode = 0, stdout = listing, stderr = []\<rparr>
        else if take 1 cmd = [py ''scrcpy''] then \<lparr>returncode = mr, stdout = [], stderr = []\<rparr>
        else if last cmd = py ''3'' then \<lparr>returncode = en, stdout = [], stderr = []\<rparr>
        else \<lparr>returncode = dis, stdout = [], stderr = []\<rparr>)\<rparr>"

text \<open>A world where the bridge tool is installed and every command exits with 1.\<close>

definition failing_world :: world where
  "failing_world =
     \<lparr>on_path = (\<lambda>binary. True),
      answer = (\<lambda>t cmd. \<lparr>returncode = 1, stdout = [], stderr = py ''adb: no server''\<rparr>)\<rparr>"

text \<open>A world where the bridge tool is installed and the mirroring tool is not.\<close>

definition bare_world :: world where
  "bare_world =
     \<lparr>on_path = (\<lambda>binary. binary = py ''adb''),
      answer = (\<lambda>t cmd. \<lparr>returncode = 0, stdout = [], stderr = []\<rparr>)\<rparr>"

text \<open>\<^verbatim>\<open>phonixcast start\<close> with nothing else on the command line, and
  \<^verbatim>\<open>phonixcast devices\<close>.\<close>

definition start_args :: args where
  "start_args =
     \<lparr>command = py ''start'', profile = py ''balanced'', serial = None, max_size = None,
      turn_screen_off = False, stay_awake = False, no_audio = False\<rparr>"


section \<open>Properties\<close>

subsection \<open>Splitting into fields and lines\<close>

lemma split_from_dropWhile: "split_from [] (dropWhile isspace s) = split_from [] s"
  by (induction s) simp_all

lemma split_from_all_space:
  "\<forall>c\<in>set ws. isspace c \<Longrightarrow> split_from cur ws = (if cur = [] then [] else [cur])"
  by (induction ws arbitrary: cur) simp_all

lemma split_from_trailing:
  "\<forall>c\<in>set ws. isspace c \<Longrightarrow> split_from cur (xs @ ws) = split_from cur xs"
proof (induction xs arbitrary: cur)
  case Nil
  then show ?case by (simp add: split_from_all_space)
next
  case (Cons x xs)
  then show ?case by simp
qed

lemma rev_dropWhile_rev: "rev (dropWhile P (rev s)) @ rev (takeWhile P (rev s)) = s"
proof -
  have "rev (takeWhile P (rev s) @ dropWhile P (rev s)) = s" by simp
  then show ?thesis by (simp only: rev_append)
qed

text \<open>Stripping a line before splitting it changes nothing: the fields are the same.\<close>

lemma split_strip: "split (strip s) = split s"
proof -
  let ?s = "dropWhile isspace s"
  let ?ws = "rev (takeWhile isspace (rev ?s))"
  have sp: "\<forall>c\<in>set ?ws. isspace c"
    by (auto dest: set_takeWhileD)
  have "split_from [] (strip s @ ?ws) = split_from [] (strip s)"
    using sp by (rule split_from_trailing)
  moreover have "strip s @ ?ws = ?s"
    unfolding strip_def by (rule rev_dropWhile_rev)
  ultimately show ?thesis
    by (simp add: split_def split_from_dropWhile)
qed

lemma devices_loop_filter:
  "devices_loop devices ls = devices @ map (\<lambda>l. split l ! 0) (filter ready_line ls)"
  by (induction ls arbitrary: devices) (simp_all add: ready_line_def split_strip Let_def)

lemma parse_devices_ready: "parse_devices out = ready_serials out"
  by (simp add: parse_devices_def ready_serials_def devices_loop_filter)

text \<open>A first line without a line boundary in it, ended by a line feed, is one line.\<close>

lemma splitlines_from_header:
  "\<forall>c\<in>set h. \<not> is_linebreak c \<Longrightarrow>
   splitlines_from cur (h @ 10 # rest) = (cur @ h) # splitlines_from [] rest"
proof (induction h arbitrary: cur)
  case Nil
  show ?case by (cases rest) (simp_all add: is_linebreak_def)
next
  case (Cons x h)
  from Cons.prems have x: "\<not> is_linebreak x" and h: "\<forall>c\<in>set h. \<not> is_linebreak c"
    by simp_all
  from x have x13: "x \<noteq> 13" by (auto simp: is_linebreak_def)
  obtain d ds where eq: "h @ 10 # rest = d # ds" by (cases h) auto
  have "splitlines_from cur (x # h @ 10 # rest) = splitlines_from (cur @ [x]) (h @ 10 # rest)"
    unfolding eq using x x13 by simp
  also have "\<dots> = ((cur @ [x]) @ h) # splitlines_from [] rest"
    using h by (rule Cons.IH)
  finally show ?case by simp
qed

lemma splitlines_from_one_line:
  "\<forall>c\<in>set h. \<not> is_linebreak c \<Longrightarrow>
   splitlines_from cur h = (if cur @ h = [] then [] else [cur @ h])"
proof (induction h arbitrary: cur)
  case Nil
  show ?case by simp
next
  case (Cons x h)
  from Cons.prems have x: "\<not> is_linebreak x" and h: "\<forall>c\<in>set h. \<not> is_linebreak c"
    by simp_all
  from x have x13: "x \<noteq> 13" by (auto simp: is_linebreak_def)
  show ?case
  proof (cases h)
    case Nil
    then show ?thesis using x by simp
  next
    case (Cons d ds)
    have "splitlines_from cur (x # d # ds) = splitlines_from (cur @ [x]) (d # ds)"
      using x x13 by simp
    with Cons.IH [OF h, of "cur @ [x]"] Cons show ?thesis by simp
  qed
qed

lemma parse_after_header:
  "\<forall>c\<in>set h. \<not> is_linebreak c \<Longrightarrow>
   parse_devices (h @ 10 # rest) = devices_loop [] (splitlines_from [] rest)"
  by (simp add: parse_devices_def splitlines_def splitlines_from_header)

lemma parse_header_only:
  "\<forall>c\<in>set h. \<not> is_linebreak c \<Longrightarrow> parse_devices h = []"
  by (simp add: parse_devices_def splitlines_def splitlines_from_one_line)

lemma sample_lines:
  "splitlines_from [] (sample_ready @ 10 # sample_unauthorized @ [10])
     = [sample_ready, sample_unauthorized]"
  "splitlines_from [] (sample_ready @ 10 # sample_unauthorized)
     = [sample_ready, sample_unauthorized]"
  by (simp_all add: sample_ready_def sample_unauthorized_def is_linebreak_def)

lemma sample_fields:
  "split (strip sample_ready) = [py ''ABC123'', py ''device'', py ''usb'']"
  "split (strip sample_unauthorized) = [py ''XYZ999'', py ''unauthorized'', py ''usb'']"
  by (simp_all add: sample_ready_def sample_unauthorized_def split_def strip_def isspace_def)

lemma sample_devices:
  "devices_loop [] [sample_ready, sample_unauthorized] = [py ''ABC123'']"
  by (simp add: sample_fields)

lemma header_no_linebreak: "\<forall>c\<in>set adb_header. \<not> is_linebreak c"
  by (simp add: adb_header_def is_linebreak_def)

lemma parse_sample_listing: "parse_devices sample_listing = [py ''ABC123'']"
proof -
  have "parse_devices sample_listing
          = devices_loop [] (splitlines_from [] (sample_ready @ 10 # sample_unauthorized @ [10]))"
    using parse_after_header [OF header_no_linebreak] by (simp add: sample_listing_def)
  then show ?thesis by (simp only: sample_lines sample_devices)
qed

lemma parse_header_listing: "parse_devices (adb_header @ [10]) = []"
  using parse_after_header [OF header_no_linebreak, of "[]"] by simp

lemma parse_samples_after_header:
  assumes h: "\<forall>c\<in>set header. \<not> is_linebreak c"
  shows "parse_devices (header @ 10 # sample_ready @ 10 # sample_unauthorized @ [10])
           = [py ''ABC123'']"
    and "parse_devices (header @ 10 # sample_ready @ 10 # sample_unauthorized)
           = [py ''ABC123'']"
  by (simp_all only: parse_after_header [OF h] sample_lines sample_devices)

subsection \<open>Running the functions\<close>

text \<open>What each function that runs a child process returns and appends to the trace.\<close>

lemma list_devices_run:
  "list_devices w t =
     (if returncode (answer w t adb_devices_cmd) \<noteq> 0
      then Inl (RuntimeError (query_failed_message (stderr (answer w t adb_devices_cmd))))
      else Inr (parse_devices (stdout (answer w t adb_devices_cmd))),
      t @ [Run adb_devices_cmd True (answer w t adb_devices_cmd)])"
  by (simp add: list_devices_def run_command_def Let_def)

lemma set_stay_awake_run:
  "set_stay_awake w d b t =
     (if returncode (answer w t (stay_awake_cmd d b)) \<noteq> 0
      then Inl (RuntimeError stay_awake_failed_message) else Inr (),
      t @ [Run (stay_awake_cmd d b) False (answer w t (stay_awake_cmd d b))])"
  by (simp add: set_stay_awake_def run_command_def Let_def)

lemma restore_stay_awake_run:
  "restore_stay_awake w d t =
     t @ [Run (stay_awake_cmd d False) False (answer w t (stay_awake_cmd d False))]
       @ (if returncode (answer w t (stay_awake_cmd d False)) \<noteq> 0
          then [PrintErr restore_warning] else [])"
  by (simp add: restore_stay_awake_def set_stay_awake_run)

lemma stream_run:
  "stream w a p d t =
     (Inr (returncode (answer w (t @ [Print (starting_message p d)]) (mirror_cmd d p a))),
      (if stay_awake a
       then restore_stay_awake w d
              (t @ [Print (starting_message p d),
                    Run (mirror_cmd d p a) False
                      (answer w (t @ [Print (starting_message p d)]) (mirror_cmd d p a))])
       else t @ [Print (starting_message p d),
                 Run (mirror_cmd d p a) False
                   (answer w (t @ [Print (starting_message p d)]) (mirror_cmd d p a))]))"
  by (simp add: stream_def run_command_def Let_def)

text \<open>The program each command line runs.\<close>

lemma take_one_cmds [simp]:
  "take (Suc 0) (mirror_cmd d p a) = [py ''scrcpy'']"
  "take (Suc 0) adb_devices_cmd = [py ''adb'']"
  "take (Suc 0) (stay_awake_cmd d b) = [py ''adb'']"
  by (simp_all add: mirror_cmd_def adb_devices_cmd_def stay_awake_cmd_def)

lemma commands_run_append [simp]:
  "commands_run (xs @ ys) = commands_run xs @ commands_run ys"
  by (induction xs rule: commands_run.induct) simp_all

lemma main_start:
  assumes "command a = py ''start''" "on_path w (py ''adb'')" "on_path w (py ''scrcpy'')"
  shows "main_try w a t = start_stream w a t"
  using assms by (simp add: main_try_def require_binary_def)

lemma str_int_samples: "str_int 60 = py ''60''" "str_int 1024 = py ''1024''" "str_int (- 1) = py ''-1''"
  by (simp_all add: str_int_def nat_digits.simps)

lemma profiles_balanced:
  "profiles_getitem (py ''balanced'')
     = Inr \<lparr>name = py ''balanced'', bitrate = py ''8M'', max_fps = 60, codec = py ''h264''\<rparr>"
  by (simp add: profiles_getitem_def PROFILES_def)

lemma snd_list_devices:
  "snd (list_devices w t) = t @ [Run adb_devices_cmd True (answer w t adb_devices_cmd)]"
  by (simp add: list_devices_run)

text \<open>\<^verbatim>\<open>start_stream\<close> once the profile is found and the listing has succeeded: the two
  refusals, the failure to switch the setting on, and the session itself.\<close>

lemma start_stream_run:
  assumes "profiles_getitem (profile a) = Inr p"
    and "fst (list_devices w t) = Inr ds"
  shows "start_stream w a t =
     (if ds = [] then (Inr 2, snd (list_devices w t) @ [PrintErr no_devices_message])
      else if serial_or_first (serial a) ds \<notin> set ds
      then (Inr 2, snd (list_devices w t)
                     @ [PrintErr (unavailable_message (serial_or_first (serial a) ds))])
      else if stay_awake a
      then (if returncode (answer w (snd (list_devices w t))
                             (stay_awake_cmd (serial_or_first (serial a) ds) True)) \<noteq> 0
            then (Inl (RuntimeError stay_awake_failed_message),
                  snd (set_stay_awake w (serial_or_first (serial a) ds) True
                         (snd (list_devices w t))))
            else stream w a p (serial_or_first (serial a) ds)
                   (snd (set_stay_awake w (serial_or_first (serial a) ds) True
                           (snd (list_devices w t)))))
      else stream w a p (serial_or_first (serial a) ds) (snd (list_devices w t)))"
  using assms
  by (cases "list_devices w t") (simp add: start_stream_def set_stay_awake_run Let_def)

lemma start_stream_commands:
  assumes "profiles_getitem (profile a) = Inr p"
    and "fst (list_devices w t) = Inr ds"
    and "ds \<noteq> []"
    and "serial_or_first (serial a) ds = device"
    and "device \<in> set ds"
    and "stay_awake a \<longrightarrow>
           returncode (answer w (snd (list_devices w t)) (stay_awake_cmd device True)) = 0"
  shows "commands_run (drop (length t) (snd (start_stream w a t)))
     = adb_devices_cmd # (if stay_awake a then [stay_awake_cmd device True] else [])
       @ [mirror_cmd device p a]
       @ (if stay_awake a then [stay_awake_cmd device False] else [])"
  using assms
  by (simp add: start_stream_run [OF assms(1,2)] snd_list_devices set_stay_awake_run
      stream_run restore_stay_awake_run)

text \<open>The sample world answers the listing query with its listing, whatever happened
  before.\<close>

lemma sample_world_devices:
  "list_devices (sample_world listing en mr dis) t
     = (Inr (parse_devices listing),
        t @ [Run adb_devices_cmd True \<lparr>returncode = 0, stdout = listing, stderr = []\<rparr>])"
  by (simp add: list_devices_run sample_world_def)

lemma start_args_fields:
  "command start_args = py ''start''" "profile start_args = py ''balanced''"
  "serial start_args = None" "max_size start_args = None" "\<not> turn_screen_off start_args"
  "\<not> stay_awake start_args" "\<not> no_audio start_args"
  by (simp_all add: start_args_def)

subsection \<open>The Device Directory\<close>

text \<open>
  Claim C1. For every captured device-listing text, \<^verbatim>\<open>list_devices\<close> skips the first line and
  returns exactly the first whitespace-separated field of each remaining line that has at
  least two whitespace-separated fields and whose second field is exactly the token
  \<^verbatim>\<open>device\<close>, in the order of those lines: the loop of the source computes what the
  specification's words say (\<open>ready_serials\<close>), and that is what \<^verbatim>\<open>list_devices\<close> returns when
  the listing command exits with 0. In particular a header line (any text without a line
  boundary) followed by the line of \<^verbatim>\<open>ABC123\<close> in state \<^verbatim>\<open>device\<close> and the line of
  \<^verbatim>\<open>XYZ999\<close> in state \<^verbatim>\<open>unauthorized\<close> yields exactly \<^verbatim>\<open>ABC123\<close>, with or without a final
  line feed, and a header alone yields the empty list.
\<close>

theorem C1_device_directory:
  "parse_devices out = ready_serials out
   \<and> (returncode (answer w t adb_devices_cmd) = 0 \<longrightarrow>
        fst (list_devices w t) = Inr (ready_serials (stdout (answer w t adb_devices_cmd))))
   \<and> ((\<forall>c\<in>set header. \<not> is_linebreak c) \<longrightarrow>
        parse_devices (header @ [10] @ sample_ready @ [10] @ sample_unauthorized @ [10])
          = [py ''ABC123'']
        \<and> parse_devices (header @ [10] @ sample_ready @ [10] @ sample_unauthorized)
          = [py ''ABC123'']
        \<and> parse_devices (header @ [10]) = []
        \<and> parse_devices header = [])"
proof (intro conjI impI)
  show "parse_devices out = ready_serials out"
    by (rule parse_devices_ready)
next
  assume "returncode (answer w t adb_devices_cmd) = 0"
  then show "fst (list_devices w t) = Inr (ready_serials (stdout (answer w t adb_devices_cmd)))"
    by (simp add: list_devices_run parse_devices_ready)
next
  assume h: "\<forall>c\<in>set header. \<not> is_linebreak c"
  show "parse_devices (header @ [10] @ sample_ready @ [10] @ sample_unauthorized @ [10])
          = [py ''ABC123'']"
    using parse_samples_after_header(1) [OF h] by simp
next
  assume h: "\<forall>c\<in>set header. \<not> is_linebreak c"
  show "parse_devices (header @ [10] @ sample_ready @ [10] @ sample_unauthorized)
          = [py ''ABC123'']"
    using parse_samples_after_header(2) [OF h] by simp
next
  assume h: "\<forall>c\<in>set header. \<not> is_linebreak c"
  show "parse_devices (header @ [10]) = []"
    using parse_after_header [OF h, of "[]"] by simp
next
  assume h: "\<forall>c\<in>set header. \<not> is_linebreak c"
  then show "parse_devices header = []"
    by (rule parse_header_only)
qed

theorem C1_device_directory_witness:
  "returncode (answer (sample_world sample_listing 0 0 0) [] adb_devices_cmd) = 0
   \<and> fst (list_devices (sample_world sample_listing 0 0 0) []) = Inr [py ''ABC123'']
   \<and> ready_serials sample_listing = [py ''ABC123'']
   \<and> list_all (\<lambda>c. \<not> is_linebreak c) adb_header
   \<and> parse_devices (adb_header @ [10] @ sample_ready @ [10] @ sample_unauthorized @ [10])
        = [py ''ABC123'']
   \<and> parse_devices (adb_header @ [10]) = []"
proof -
  have a: "answer (sample_world sample_listing 0 0 0) [] adb_devices_cmd
             = \<lparr>returncode = 0, stdout = sample_listing, stderr = []\<rparr>"
    by (simp add: sample_world_def)
  have r: "ready_serials sample_listing = [py ''ABC123'']"
    using C1_device_directory [of sample_listing] parse_sample_listing by simp
  show ?thesis
    using C1_device_directory [of sample_listing "sample_world sample_listing 0 0 0" "[]" adb_header]
      header_no_linebreak a r
    by (simp add: list_all_iff)
qed

subsection \<open>The Profile Table\<close>

text \<open>
  Claim C5. For each of the three fixed keys \<^verbatim>\<open>balanced\<close>, \<^verbatim>\<open>low-latency\<close> and
  \<^verbatim>\<open>ultra-low-latency\<close> the lookup returns the recorded bitrate, frame rate and codec of the
  entry of that name, the table has no other key, and for every other name the lookup fails:
  the subscript raises \<^verbatim>\<open>KeyError\<close>, which is the specification's \<^verbatim>\<open>UnknownProfile\<close>, and
  \<^verbatim>\<open>start_stream\<close> raises it before doing anything else.
\<close>

theorem C5_profile_lookup:
  "profiles_getitem (py ''balanced'')
     = Inr \<lparr>name = py ''balanced'', bitrate = py ''8M'', max_fps = 60, codec = py ''h264''\<rparr>
   \<and> profiles_getitem (py ''low-latency'')
     = Inr \<lparr>name = py ''low-latency'', bitrate = py ''6M'', max_fps = 45, codec = py ''h264''\<rparr>
   \<and> profiles_getitem (py ''ultra-low-latency'')
     = Inr \<lparr>name = py ''ultra-low-latency'', bitrate = py ''4M'', max_fps = 30,
            codec = py ''h264''\<rparr>
   \<and> map fst PROFILES = [py ''balanced'', py ''low-latency'', py ''ultra-low-latency'']
   \<and> (n \<notin> {py ''balanced'', py ''low-latency'', py ''ultra-low-latency''} \<longrightarrow>
        profiles_getitem n = Inl (KeyError n)
        \<and> start_stream w (a\<lparr>profile := n\<rparr>) t = (Inl (KeyError n), t))"
  by (simp add: profiles_getitem_def PROFILES_def start_stream_def)

theorem C5_profile_lookup_witness:
  "py ''turbo'' \<notin> {py ''balanced'', py ''low-latency'', py ''ultra-low-latency''}
   \<and> profiles_getitem (py ''turbo'') = Inl (KeyError (py ''turbo''))
   \<and> start_stream failing_world (start_args\<lparr>profile := py ''turbo''\<rparr>) []
        = (Inl (KeyError (py ''turbo'')), [])"
  using C5_profile_lookup [of "py ''turbo''" failing_world start_args "[]"] by simp

subsection \<open>The command line of the mirroring tool\<close>

text \<open>
  Claim C3. For every device and profile, the command line built with no optional flag is
  the program name followed by exactly the four base argument pairs (serial selector, bitrate,
  maximal frame rate, codec, the values taken from the profile) and nothing else; for the
  profile \<^verbatim>\<open>balanced\<close> these are \<^verbatim>\<open>8M\<close>, \<^verbatim>\<open>60\<close> and \<^verbatim>\<open>h264\<close>, and \<^verbatim>\<open>--max-size 1024\<close>
  appends exactly the one pair \<^verbatim>\<open>--max-size 1024\<close>. In general the command line is the base
  one followed by the maximal-size pair, the screen-off flag and the no-audio flag, each only
  when requested. It is the command \<^verbatim>\<open>start_stream\<close> runs, for the device it resolved and
  the profile it looked up: when the profile is found, the listing succeeds, and the resolved
  device is among the discovered ones, the child processes of \<^verbatim>\<open>start_stream\<close> are the
  listing query and this command line, with the two settings commands around it when
  \<^verbatim>\<open>--stay-awake\<close> is given and switching the setting on succeeds.
\<close>

theorem C3_mirror_command:
  "mirror_cmd device p (a\<lparr>max_size := None, turn_screen_off := False, no_audio := False\<rparr>)
     = [py ''scrcpy'', py ''--serial'', device, py ''--video-bit-rate'', bitrate p,
        py ''--max-fps'', str_int (max_fps p), py ''--video-codec'', codec p]
   \<and> (profiles_getitem (py ''balanced'') = Inr p \<longrightarrow>
        mirror_cmd device p (a\<lparr>max_size := None, turn_screen_off := False, no_audio := False\<rparr>)
          = [py ''scrcpy'', py ''--serial'', device, py ''--video-bit-rate'', py ''8M'',
             py ''--max-fps'', py ''60'', py ''--video-codec'', py ''h264'']
        \<and> mirror_cmd device p
             (a\<lparr>max_size := Some 1024, turn_screen_off := False, no_audio := False\<rparr>)
          = [py ''scrcpy'', py ''--serial'', device, py ''--video-bit-rate'', py ''8M'',
             py ''--max-fps'', py ''60'', py ''--video-codec'', py ''h264'']
            @ [py ''--max-size'', py ''1024''])
   \<and> mirror_cmd device p a
     = mirror_cmd device p (a\<lparr>max_size := None, turn_screen_off := False, no_audio := False\<rparr>)
       @ (if max_size a = None \<or> max_size a = Some 0 then []
          else [py ''--max-size'', str_int (the (max_size a))])
       @ (if turn_screen_off a then [py ''--turn-screen-off''] else [])
       @ (if no_audio a then [py ''--no-audio''] else [])
   \<and> commands_run (drop (length t) (snd (stream w a p device t)))
     = mirror_cmd device p a # (if stay_awake a then [stay_awake_cmd device False] else [])
   \<and> (profiles_getitem (profile a) = Inr p \<and> fst (list_devices w t) = Inr ds \<and> ds \<noteq> []
        \<and> serial_or_first (serial a) ds = device \<and> device \<in> set ds
        \<and> (stay_awake a \<longrightarrow>
             returncode (answer w (snd (list_devices w t)) (stay_awake_cmd device True)) = 0)
      \<longrightarrow>
        commands_run (drop (length t) (snd (start_stream w a t)))
          = adb_devices_cmd # (if stay_awake a then [stay_awake_cmd device True] else [])
            @ [mirror_cmd device p a]
            @ (if stay_awake a then [stay_awake_cmd device False] else []))"
proof (intro conjI impI)
  show "mirror_cmd device p (a\<lparr>max_size := None, turn_screen_off := False, no_audio := False\<rparr>)
     = [py ''scrcpy'', py ''--serial'', device, py ''--video-bit-rate'', bitrate p,
        py ''--max-fps'', str_int (max_fps p), py ''--video-codec'', codec p]"
    by (simp add: mirror_cmd_def)
next
  assume "profiles_getitem (py ''balanced'') = Inr p"
  with profiles_balanced
  have p: "p = \<lparr>name = py ''balanced'', bitrate = py ''8M'', max_fps = 60, codec = py ''h264''\<rparr>"
    by simp
  show "mirror_cmd device p (a\<lparr>max_size := None, turn_screen_off := False, no_audio := False\<rparr>)
          = [py ''scrcpy'', py ''--serial'', device, py ''--video-bit-rate'', py ''8M'',
             py ''--max-fps'', py ''60'', py ''--video-codec'', py ''h264'']"
    using str_int_samples(1) by (simp add: mirror_cmd_def p)
  show "mirror_cmd device p
             (a\<lparr>max_size := Some 1024, turn_screen_off := False, no_audio := False\<rparr>)
          = [py ''scrcpy'', py ''--serial'', device, py ''--video-bit-rate'', py ''8M'',
             py ''--max-fps'', py ''60'', py ''--video-codec'', py ''h264'']
            @ [py ''--max-size'', py ''1024'']"
    using str_int_samples(1,2) by (simp add: mirror_cmd_def p)
next
  show "mirror_cmd device p a
     = mirror_cmd device p (a\<lparr>max_size := None, turn_screen_off := False, no_audio := False\<rparr>)
       @ (if max_size a = None \<or> max_size a = Some 0 then []
          else [py ''--max-size'', str_int (the (max_size a))])
       @ (if turn_screen_off a then [py ''--turn-screen-off''] else [])
       @ (if no_audio a then [py ''--no-audio''] else [])"
    by (cases "max_size a") (simp_all add: mirror_cmd_def)
next
  show "commands_run (drop (length t) (snd (stream w a p device t)))
     = mirror_cmd device p a # (if stay_awake a then [stay_awake_cmd device False] else [])"
    by (simp add: stream_run restore_stay_awake_run)
next
  assume "profiles_getitem (profile a) = Inr p \<and> fst (list_devices w t) = Inr ds \<and> ds \<noteq> []
        \<and> serial_or_first (serial a) ds = device \<and> device \<in> set ds
        \<and> (stay_awake a \<longrightarrow>
             returncode (answer w (snd (list_devices w t)) (stay_awake_cmd device True)) = 0)"
  then show "commands_run (drop (length t) (snd (start_stream w a t)))
          = adb_devices_cmd # (if stay_awake a then [stay_awake_cmd device True] else [])
            @ [mirror_cmd device p a]
            @ (if stay_awake a then [stay_awake_cmd device False] else [])"
    using start_stream_commands [of a p w t ds device] by simp
qed

text \<open>The witness runs \<^verbatim>\<open>start_stream\<close> on the sample listing, without options and with
  \<^verbatim>\<open>--max-size 1024\<close>.\<close>

theorem C3_mirror_command_witness:
  "profiles_getitem (py ''balanced'')
     = Inr \<lparr>name = py ''balanced'', bitrate = py ''8M'', max_fps = 60, codec = py ''h264''\<rparr>
   \<and> mirror_cmd (py ''ABC123'')
        \<lparr>name = py ''balanced'', bitrate = py ''8M'', max_fps = 60, codec = py ''h264''\<rparr>
        (start_args\<lparr>max_size := None, turn_screen_off := False, no_audio := False\<rparr>)
      = [py ''scrcpy'', py ''--serial'', py ''ABC123'', py ''--video-bit-rate'', py ''8M'',
         py ''--max-fps'', py ''60'', py ''--video-codec'', py ''h264'']
   \<and> mirror_cmd (py ''ABC123'')
        \<lparr>name = py ''balanced'', bitrate = py ''8M'', max_fps = 60, codec = py ''h264''\<rparr>
        (start_args\<lparr>max_size := Some 1024, turn_screen_off := False, no_audio := False\<rparr>)
      = [py ''scrcpy'', py ''--serial'', py ''ABC123'', py ''--video-bit-rate'', py ''8M'',
         py ''--max-fps'', py ''60'', py ''--video-codec'', py ''h264'',
         py ''--max-size'', py ''1024'']
   \<and> fst (list_devices (sample_world sample_listing 0 0 0) []) = Inr [py ''ABC123'']
   \<and> serial_or_first (serial start_args) [py ''ABC123''] = py ''ABC123''
   \<and> commands_run (snd (start_stream (sample_world sample_listing 0 0 0) start_args []))
      = [[py ''adb'', py ''devices''],
         [py ''scrcpy'', py ''--serial'', py ''ABC123'', py ''--video-bit-rate'', py ''8M'',
          py ''--max-fps'', py ''60'', py ''--video-codec'', py ''h264'']]
   \<and> commands_run (snd (start_stream (sample_world sample_listing 0 0 0)
                           (start_args\<lparr>max_size := Some 1024\<rparr>) []))
      = [[py ''adb'', py ''devices''],
         [py ''scrcpy'', py ''--serial'', py ''ABC123'', py ''--video-bit-rate'', py ''8M'',
          py ''--max-fps'', py ''60'', py ''--video-codec'', py ''h264'',
          py ''--max-size'', py ''1024'']]"
proof -
  let ?p = "\<lparr>name = py ''balanced'', bitrate = py ''8M'', max_fps = 60, codec = py ''h264''\<rparr>"
  let ?w = "sample_world sample_listing 0 0 0"
  have ds: "fst (list_devices ?w []) = Inr [py ''ABC123'']"
    by (simp only: sample_world_devices parse_sample_listing fst_conv)
  have d: "serial_or_first None [py ''ABC123''] = py ''ABC123''"
    by (simp add: serial_or_first_def)
  have f: "profile start_args = py ''balanced''" "serial start_args = None"
      "\<not> stay_awake start_args" "max_size start_args = None"
      "\<not> turn_screen_off start_args" "\<not> no_audio start_args"
    by (simp_all add: start_args_def)
  have m: "mirror_cmd (py ''ABC123'') ?p start_args
      = [py ''scrcpy'', py ''--serial'', py ''ABC123'', py ''--video-bit-rate'', py ''8M'',
         py ''--max-fps'', py ''60'', py ''--video-codec'', py ''h264'']"
    "mirror_cmd (py ''ABC123'') ?p (start_args\<lparr>max_size := Some 1024\<rparr>)
      = [py ''scrcpy'', py ''--serial'', py ''ABC123'', py ''--video-bit-rate'', py ''8M'',
         py ''--max-fps'', py ''60'', py ''--video-codec'', py ''h264'',
         py ''--max-size'', py ''1024'']"
    by (simp_all add: mirror_cmd_def f str_int_samples)
  show ?thesis
    using C3_mirror_command [where device = "py ''ABC123''" and p = ?p and a = start_args
        and t = "[]" and w = ?w and ds = "[py ''ABC123'']"]
      C3_mirror_command [where device = "py ''ABC123''" and p = ?p
        and a = "start_args\<lparr>max_size := Some 1024\<rparr>"
        and t = "[]" and w = ?w and ds = "[py ''ABC123'']"]
      profiles_balanced ds d f m
    by (simp add: adb_devices_cmd_def)
qed

text \<open>
  Claim C10. With \<^verbatim>\<open>--max-size 0\<close> no maximal-size pair is appended: the truth value of the
  option treats 0 as it treats an option that was not given, so the command line is the
  same in both cases, while every other integer appends the pair.
\<close>

theorem C10_max_size_zero:
  "mirror_cmd device p (a\<lparr>max_size := Some 0\<rparr>) = mirror_cmd device p (a\<lparr>max_size := None\<rparr>)
   \<and> mirror_cmd device p (a\<lparr>max_size := Some 0, turn_screen_off := False, no_audio := False\<rparr>)
     = [py ''scrcpy'', py ''--serial'', device, py ''--video-bit-rate'', bitrate p,
        py ''--max-fps'', str_int (max_fps p), py ''--video-codec'', codec p]
   \<and> (n \<noteq> 0 \<longrightarrow>
        mirror_cmd device p (a\<lparr>max_size := Some n, turn_screen_off := False, no_audio := False\<rparr>)
        = [py ''scrcpy'', py ''--serial'', device, py ''--video-bit-rate'', bitrate p,
           py ''--max-fps'', str_int (max_fps p), py ''--video-codec'', codec p,
           py ''--max-size'', str_int n])"
  by (simp add: mirror_cmd_def)

theorem C10_max_size_zero_witness:
  "(- 1 :: int) \<noteq> 0
   \<and> mirror_cmd (py ''ABC123'')
        \<lparr>name = py ''balanced'', bitrate = py ''8M'', max_fps = 60, codec = py ''h264''\<rparr>
        (start_args\<lparr>max_size := Some 0\<rparr>)
      = [py ''scrcpy'', py ''--serial'', py ''ABC123'', py ''--video-bit-rate'', py ''8M'',
         py ''--max-fps'', py ''60'', py ''--video-codec'', py ''h264'']
   \<and> mirror_cmd (py ''ABC123'')
        \<lparr>name = py ''balanced'', bitrate = py ''8M'', max_fps = 60, codec = py ''h264''\<rparr>
        (start_args\<lparr>max_size := Some (- 1), turn_screen_off := False, no_audio := False\<rparr>)
      = [py ''scrcpy'', py ''--serial'', py ''ABC123'', py ''--video-bit-rate'', py ''8M'',
         py ''--max-fps'', py ''60'', py ''--video-codec'', py ''h264'',
         py ''--max-size'', py ''-1'']"
  using C10_max_size_zero [of "py ''ABC123''"
      "\<lparr>name = py ''balanced'', bitrate = py ''8M'', max_fps = 60, codec = py ''h264''\<rparr>"
      start_args "- 1"]
    str_int_samples
  by (simp add: start_args_def mirror_cmd_def)

subsection \<open>Device resolution\<close>

lemma parse_two_listing: "parse_devices two_listing = [py ''ABC123'', py ''DEF456'']"
proof -
  have "splitlines_from [] (sample_unauthorized @ 10 # sample_ready @ 10 # sample_second @ [10])
          = [sample_unauthorized, sample_ready, sample_second]"
    by (simp add: sample_ready_def sample_unauthorized_def sample_second_def is_linebreak_def)
  moreover have "split (strip sample_second) = [py ''DEF456'', py ''device'']"
    by (simp add: sample_second_def split_def strip_def isspace_def)
  moreover have "parse_devices two_listing
      = devices_loop []
          (splitlines_from [] (sample_unauthorized @ 10 # sample_ready @ 10 # sample_second @ [10]))"
    using parse_after_header [OF header_no_linebreak] by (simp add: two_listing_def)
  ultimately show ?thesis
    by (simp add: sample_fields)
qed

text \<open>\<^verbatim>\<open>main\<close> for the command \<^verbatim>\<open>start\<close> with both tools installed: \<^verbatim>\<open>start_stream\<close>,
  with a \<^verbatim>\<open>RuntimeError\<close> turned into the exit status 1.\<close>

lemma main_start_run:
  assumes "command a = py ''start''" "on_path w (py ''adb'')" "on_path w (py ''scrcpy'')"
  shows "main w a t =
     (case start_stream w a t of
        (Inl (RuntimeError m), t1) \<Rightarrow> (Inr 1, t1 @ [PrintErr (py ''Error: '' @ m)])
      | r \<Rightarrow> r)"
  using assms by (simp add: main_def main_start)

lemma sample_world_on_path: "on_path (sample_world listing en mr dis) b"
  by (simp add: sample_world_def)



text \<open>
  Claim C8. A \<^verbatim>\<open>start\<close> invocation without \<^verbatim>\<open>--serial\<close> in which the Device Directory
  returns a list that is not empty: the device \<^verbatim>\<open>start_stream\<close> resolves is the first
  element of that list, which is the list of the ready lines of the listing in their order,
  and it is the device of everything \<^verbatim>\<open>start_stream\<close> does from there: the settings
  command when \<^verbatim>\<open>--stay-awake\<close> is given, and the session with its mirroring command.
\<close>

theorem C8_default_device:
  assumes "profiles_getitem (profile a) = Inr p"
    and "fst (list_devices w t) = Inr ds"
    and "ds \<noteq> []"
    and "serial a = None"
  shows "serial_or_first (serial a) ds = ds ! 0
     \<and> ds = ready_serials (stdout (answer w t adb_devices_cmd))
     \<and> start_stream w a t =
         (if stay_awake a
          then (if returncode (answer w (snd (list_devices w t))
                                 (stay_awake_cmd (ds ! 0) True)) \<noteq> 0
                then (Inl (RuntimeError stay_awake_failed_message),
                      snd (set_stay_awake w (ds ! 0) True (snd (list_devices w t))))
                else stream w a p (ds ! 0)
                       (snd (set_stay_awake w (ds ! 0) True (snd (list_devices w t)))))
          else stream w a p (ds ! 0) (snd (list_devices w t)))
     \<and> commands_run (drop (length t) (snd (start_stream w a t)))
         = adb_devices_cmd
           # (if stay_awake a
              then stay_awake_cmd (ds ! 0) True
                   # (if returncode (answer w (snd (list_devices w t))
                                       (stay_awake_cmd (ds ! 0) True)) \<noteq> 0
                      then []
                      else [mirror_cmd (ds ! 0) p a, stay_awake_cmd (ds ! 0) False])
              else [mirror_cmd (ds ! 0) p a])"
proof -
  have d: "serial_or_first (serial a) ds = ds ! 0"
    using assms(3,4) by (simp add: serial_or_first_def hd_conv_nth)
  have m: "ds ! 0 \<in> set ds"
    using assms(3) by simp
  have r: "ds = ready_serials (stdout (answer w t adb_devices_cmd))"
    using assms(2) by (simp add: list_devices_run parse_devices_ready split: if_splits)
  have s: "start_stream w a t =
         (if stay_awake a
          then (if returncode (answer w (snd (list_devices w t))
                                 (stay_awake_cmd (ds ! 0) True)) \<noteq> 0
                then (Inl (RuntimeError stay_awake_failed_message),
                      snd (set_stay_awake w (ds ! 0) True (snd (list_devices w t))))
                else stream w a p (ds ! 0)
                       (snd (set_stay_awake w (ds ! 0) True (snd (list_devices w t)))))
          else stream w a p (ds ! 0) (snd (list_devices w t)))"
    using assms(3) m by (simp add: start_stream_run [OF assms(1,2)] d)
  have c: "commands_run (drop (length t) (snd (start_stream w a t)))
         = adb_devices_cmd
           # (if stay_awake a
              then stay_awake_cmd (ds ! 0) True
                   # (if returncode (answer w (snd (list_devices w t))
                                       (stay_awake_cmd (ds ! 0) True)) \<noteq> 0
                      then []
                      else [mirror_cmd (ds ! 0) p a, stay_awake_cmd (ds ! 0) False])
              else [mirror_cmd (ds ! 0) p a])"
    by (simp add: s snd_list_devices set_stay_awake_run stream_run restore_stay_awake_run)
  from d r s c show ?thesis by (intro conjI)
qed

text \<open>The witness has two ready devices after one that is not ready.\<close>

theorem C8_default_device_witness:
  "profiles_getitem (profile start_args)
     = Inr \<lparr>name = py ''balanced'', bitrate = py ''8M'', max_fps = 60, codec = py ''h264''\<rparr>
   \<and> fst (list_devices (sample_world two_listing 0 0 0) [])
      = Inr [py ''ABC123'', py ''DEF456'']
   \<and> serial start_args = None
   \<and> serial_or_first (serial start_args) [py ''ABC123'', py ''DEF456''] = py ''ABC123''
   \<and> commands_run (snd (start_stream (sample_world two_listing 0 0 0) start_args []))
      = [[py ''adb'', py ''devices''],
         [py ''scrcpy'', py ''--serial'', py ''ABC123'', py ''--video-bit-rate'', py ''8M'',
          py ''--max-fps'', py ''60'', py ''--video-codec'', py ''h264'']]"
proof -
  let ?w = "sample_world two_listing 0 0 0"
  let ?p = "\<lparr>name = py ''balanced'', bitrate = py ''8M'', max_fps = 60, codec = py ''h264''\<rparr>"
  have ds: "fst (list_devices ?w []) = Inr [py ''ABC123'', py ''DEF456'']"
    by (simp only: sample_world_devices parse_two_listing fst_conv)
  have p: "profiles_getitem (profile start_args) = Inr ?p"
    using profiles_balanced by (simp add: start_args_def)
  have m: "mirror_cmd (py ''ABC123'') ?p start_args
      = [py ''scrcpy'', py ''--serial'', py ''ABC123'', py ''--video-bit-rate'', py ''8M'',
         py ''--max-fps'', py ''60'', py ''--video-codec'', py ''h264'']"
    by (simp add: mirror_cmd_def start_args_fields str_int_samples)
  have ne: "[py ''ABC123'', py ''DEF456''] \<noteq> []"
    by simp
  note c8 = C8_default_device [OF p ds ne start_args_fields(3)]
  have d: "serial_or_first (serial start_args) [py ''ABC123'', py ''DEF456''] = py ''ABC123''"
    using c8 [THEN conjunct1] by simp
  have c: "commands_run (snd (start_stream ?w start_args []))
      = [[py ''adb'', py ''devices''],
         [py ''scrcpy'', py ''--serial'', py ''ABC123'', py ''--video-bit-rate'', py ''8M'',
          py ''--max-fps'', py ''60'', py ''--video-codec'', py ''h264'']]"
    using c8 [THEN conjunct2, THEN conjunct2, THEN conjunct2] m
    by (simp add: start_args_fields adb_devices_cmd_def)
  from p ds start_args_fields(3) d c show ?thesis
    by (intro conjI)
qed

lemma occurs_in_append: "occurs_in x (pre @ x @ post)"
proof (induction pre)
  case Nil
  have "take (length x) (x @ post) = x" by simp
  then show ?case by (cases "x @ post") auto
next
  case (Cons c pre)
  then show ?case by simp
qed

text \<open>
  Claim C7, as the specification words it, fails in two ways. When no device at all is
  discovered, a requested serial is not among the discovered ones, yet the line printed is
  the message that no device was found, which does not name the serial: the test for an
  empty list comes first. And \<^verbatim>\<open>--serial\<close> given the empty string is not among the
  discovered serials either, yet it counts as not given (\<^verbatim>\<open>args.serial or devices[0]\<close>): the
  first discovered device is mirrored and the exit status is the mirroring tool's, here 7.
\<close>

theorem C7_counterexample:
  "fst (list_devices (sample_world (adb_header @ [10]) 0 0 0) []) = Inr []
   \<and> py ''XYZ999'' \<notin> set []
   \<and> main (sample_world (adb_header @ [10]) 0 0 0)
        (start_args\<lparr>serial := Some (py ''XYZ999'')\<rparr>) []
      = (Inr 2, [Run adb_devices_cmd True
                   \<lparr>returncode = 0, stdout = adb_header @ [10], stderr = []\<rparr>,
                 PrintErr no_devices_message])
   \<and> \<not> occurs_in (py ''XYZ999'') no_devices_message
   \<and> fst (list_devices (sample_world sample_listing 0 7 0) []) = Inr [py ''ABC123'']
   \<and> [] \<notin> set [py ''ABC123'']
   \<and> fst (main (sample_world sample_listing 0 7 0) (start_args\<lparr>serial := Some []\<rparr>) [])
      = Inr 7
   \<and> commands_run (snd (main (sample_world sample_listing 0 7 0)
                           (start_args\<lparr>serial := Some []\<rparr>) []))
      = [[py ''adb'', py ''devices''],
         [py ''scrcpy'', py ''--serial'', py ''ABC123'', py ''--video-bit-rate'', py ''8M'',
          py ''--max-fps'', py ''60'', py ''--video-codec'', py ''h264'']]
   \<and> list_ex mirror_run (snd (main (sample_world sample_listing 0 7 0)
                                  (start_args\<lparr>serial := Some []\<rparr>) []))"
proof -
  let ?w0 = "sample_world (adb_header @ [10]) 0 0 0"
  let ?w1 = "sample_world sample_listing 0 7 0"
  let ?a0 = "start_args\<lparr>serial := Some (py ''XYZ999'')\<rparr>"
  let ?a1 = "start_args\<lparr>serial := Some []\<rparr>"
  let ?p = "\<lparr>name = py ''balanced'', bitrate = py ''8M'', max_fps = 60, codec = py ''h264''\<rparr>"
  have ds0: "fst (list_devices ?w0 []) = Inr []"
    by (simp only: sample_world_devices parse_header_listing fst_conv)
  have ds1: "fst (list_devices ?w1 []) = Inr [py ''ABC123'']"
    by (simp only: sample_world_devices parse_sample_listing fst_conv)
  have p0: "profiles_getitem (profile ?a0) = Inr ?p"
    using profiles_balanced by (simp add: start_args_def)
  have p1: "profiles_getitem (profile ?a1) = Inr ?p"
    using profiles_balanced by (simp add: start_args_def)
  have an0: "answer ?w0 [] adb_devices_cmd
               = \<lparr>returncode = 0, stdout = adb_header @ [10], stderr = []\<rparr>"
    by (simp add: sample_world_def)
  have s0: "start_stream ?w0 ?a0 []
      = (Inr 2, [Run adb_devices_cmd True
                   \<lparr>returncode = 0, stdout = adb_header @ [10], stderr = []\<rparr>,
                 PrintErr no_devices_message])"
    using start_stream_run [OF p0 ds0] an0 by (simp add: snd_list_devices)
  have m0: "main ?w0 ?a0 []
      = (Inr 2, [Run adb_devices_cmd True
                   \<lparr>returncode = 0, stdout = adb_header @ [10], stderr = []\<rparr>,
                 PrintErr no_devices_message])"
    using main_start_run [where w = ?w0 and a = ?a0 and t = "[]"] s0
    by (simp add: sample_world_on_path start_args_def)
  have n0: "\<not> occurs_in (py ''XYZ999'') no_devices_message"
    by (simp add: no_devices_message_def)
  have d1: "serial_or_first (serial ?a1) [py ''ABC123''] = py ''ABC123''"
    by (simp add: serial_or_first_def)
  have s1: "start_stream ?w1 ?a1 [] = stream ?w1 ?a1 ?p (py ''ABC123'') (snd (list_devices ?w1 []))"
    using start_stream_run [OF p1 ds1] d1 by (simp add: start_args_def)
  have mc: "mirror_cmd (py ''ABC123'') ?p ?a1
      = [py ''scrcpy'', py ''--serial'', py ''ABC123'', py ''--video-bit-rate'', py ''8M'',
         py ''--max-fps'', py ''60'', py ''--video-codec'', py ''h264'']"
    by (simp add: mirror_cmd_def start_args_def str_int_samples)
  have an: "returncode (answer ?w1 tr (mirror_cmd (py ''ABC123'') ?p ?a1)) = 7" for tr
    using mc by (simp add: sample_world_def adb_devices_cmd_def)
  have m1: "main ?w1 ?a1 [] = start_stream ?w1 ?a1 []"
    using main_start_run [where w = ?w1 and a = ?a1 and t = "[]"] s1
    by (simp add: sample_world_on_path start_args_def stream_run)
  have sa: "\<not> stay_awake ?a1"
    by (simp add: start_args_def)
  have f1: "fst (main ?w1 ?a1 []) = Inr 7"
    by (simp only: m1 s1 stream_run fst_conv an)
  have c1: "commands_run (snd (main ?w1 ?a1 []))
      = [[py ''adb'', py ''devices''],
         [py ''scrcpy'', py ''--serial'', py ''ABC123'', py ''--video-bit-rate'', py ''8M'',
          py ''--max-fps'', py ''60'', py ''--video-codec'', py ''h264'']]"
    using m1 s1 mc sa by (simp add: stream_run snd_list_devices adb_devices_cmd_def)
  have l1: "list_ex mirror_run (snd (main ?w1 ?a1 []))"
    using m1 s1 sa by (simp add: stream_run snd_list_devices)
  have e0: "py ''XYZ999'' \<notin> set []" and e1: "[] \<notin> set [py ''ABC123'']"
    by simp_all
  from ds0 e0 m0 n0 ds1 e1 f1 c1 l1 show ?thesis
    by (intro conjI)
qed

text \<open>
  Claim C7, amended. A \<^verbatim>\<open>start\<close> invocation with \<^verbatim>\<open>--serial X\<close> where \<open>X\<close> is not the empty
  string and is not among the discovered serials (the profile is one of the table):
  \<^verbatim>\<open>start_stream\<close> returns 2 after the listing query and one line on the error stream; the
  line names \<open>X\<close> when at least one device was discovered, and is the message that no device
  was found when none was; no child process of the trace is the mirroring tool, the listing
  query is the only command run; and \<^verbatim>\<open>main\<close> returns the same for the command \<^verbatim>\<open>start\<close>
  when both tools are installed.
\<close>

theorem C7_requested_unavailable:
  assumes "profiles_getitem (profile a) = Inr p"
    and "fst (list_devices w t) = Inr ds"
    and "serial a = Some x"
    and "x \<noteq> []"
    and "x \<notin> set ds"
  shows "start_stream w a t
           = (Inr 2, t @ [Run adb_devices_cmd True (answer w t adb_devices_cmd),
                          PrintErr (if ds = [] then no_devices_message
                                    else unavailable_message x)])
     \<and> occurs_in x (unavailable_message x)
     \<and> \<not> list_ex mirror_run (drop (length t) (snd (start_stream w a t)))
     \<and> commands_run (drop (length t) (snd (start_stream w a t))) = [adb_devices_cmd]
     \<and> (command a = py ''start'' \<and> on_path w (py ''adb'') \<and> on_path w (py ''scrcpy'') \<longrightarrow>
          main w a t = start_stream w a t)"
proof -
  have d: "serial_or_first (serial a) ds = x"
    using assms(3,4) by (simp add: serial_or_first_def)
  have s: "start_stream w a t
           = (Inr 2, t @ [Run adb_devices_cmd True (answer w t adb_devices_cmd),
                          PrintErr (if ds = [] then no_devices_message
                                    else unavailable_message x)])"
    using assms(5) by (simp add: start_stream_run [OF assms(1,2)] d snd_list_devices)
  have o: "occurs_in x (unavailable_message x)"
    unfolding unavailable_message_def by (rule occurs_in_append)
  have l: "\<not> list_ex mirror_run (drop (length t) (snd (start_stream w a t)))"
    by (simp add: s adb_devices_cmd_def)
  have c: "commands_run (drop (length t) (snd (start_stream w a t))) = [adb_devices_cmd]"
    by (simp add: s)
  have m: "command a = py ''start'' \<and> on_path w (py ''adb'') \<and> on_path w (py ''scrcpy'') \<longrightarrow>
          main w a t = start_stream w a t"
    by (simp add: main_start_run s)
  from s o l c m show ?thesis
    by (intro conjI)
qed

theorem C7_requested_unavailable_witness:
  "profiles_getitem (profile (start_args\<lparr>serial := Some (py ''XYZ999'')\<rparr>))
     = Inr \<lparr>name = py ''balanced'', bitrate = py ''8M'', max_fps = 60, codec = py ''h264''\<rparr>
   \<and> fst (list_devices (sample_world sample_listing 0 0 0) []) = Inr [py ''ABC123'']
   \<and> py ''XYZ999'' \<noteq> []
   \<and> py ''XYZ999'' \<notin> set [py ''ABC123'']
   \<and> main (sample_world sample_listing 0 0 0) (start_args\<lparr>serial := Some (py ''XYZ999'')\<rparr>) []
      = (Inr 2, [Run adb_devices_cmd True
                   \<lparr>returncode = 0, stdout = sample_listing, stderr = []\<rparr>,
                 PrintErr (py ''El dispositivo solicitado (XYZ999) no est'' @ [225]
                           @ py '' disponible.'')])"
proof -
  let ?w = "sample_world sample_listing 0 0 0"
  let ?a = "start_args\<lparr>serial := Some (py ''XYZ999'')\<rparr>"
  let ?p = "\<lparr>name = py ''balanced'', bitrate = py ''8M'', max_fps = 60, codec = py ''h264''\<rparr>"
  have ds: "fst (list_devices ?w []) = Inr [py ''ABC123'']"
    by (simp only: sample_world_devices parse_sample_listing fst_conv)
  have p: "profiles_getitem (profile ?a) = Inr ?p"
    using profiles_balanced by (simp add: start_args_def)
  have x: "serial ?a = Some (py ''XYZ999'')" "py ''XYZ999'' \<noteq> []"
      "py ''XYZ999'' \<notin> set [py ''ABC123'']"
    by simp_all
  note c7 = C7_requested_unavailable [OF p ds x]
  have an: "answer ?w [] adb_devices_cmd
              = \<lparr>returncode = 0, stdout = sample_listing, stderr = []\<rparr>"
    by (simp add: sample_world_def)
  have f: "command ?a = py ''start''" "on_path ?w (py ''adb'')" "on_path ?w (py ''scrcpy'')"
    by (simp_all add: start_args_def sample_world_on_path)
  have "main ?w ?a [] = start_stream ?w ?a []"
    using c7 [THEN conjunct2, THEN conjunct2, THEN conjunct2, THEN conjunct2] f by simp
  also have "\<dots> = (Inr 2, [] @ [Run adb_devices_cmd True (answer ?w [] adb_devices_cmd),
                          PrintErr (if [py ''ABC123''] = [] then no_devices_message
                                    else unavailable_message (py ''XYZ999''))])"
    using c7 [THEN conjunct1] .
  also have "\<dots> = (Inr 2, [Run adb_devices_cmd True
                   \<lparr>returncode = 0, stdout = sample_listing, stderr = []\<rparr>,
                 PrintErr (py ''El dispositivo solicitado (XYZ999) no est'' @ [225]
                           @ py '' disponible.'')])"
    by (simp add: an unavailable_message_def)
  finally have m: "main ?w ?a []
      = (Inr 2, [Run adb_devices_cmd True
                   \<lparr>returncode = 0, stdout = sample_listing, stderr = []\<rparr>,
                 PrintErr (py ''El dispositivo solicitado (XYZ999) no est'' @ [225]
                           @ py '' disponible.'')])" .
  from p ds x(2,3) m show ?thesis
    by (intro conjI)
qed

subsection \<open>The session\<close>

text \<open>What the sample world answers, whatever happened before.\<close>

lemma sample_world_answers:
  "answer (sample_world listing en mr dis) tr adb_devices_cmd
     = \<lparr>returncode = 0, stdout = listing, stderr = []\<rparr>"
  "answer (sample_world listing en mr dis) tr (mirror_cmd d p a)
     = \<lparr>returncode = mr, stdout = [], stderr = []\<rparr>"
  "answer (sample_world listing en mr dis) tr (stay_awake_cmd d True)
     = \<lparr>returncode = en, stdout = [], stderr = []\<rparr>"
  "answer (sample_world listing en mr dis) tr (stay_awake_cmd d False)
     = \<lparr>returncode = dis, stdout = [], stderr = []\<rparr>"
  by (simp_all add: sample_world_def mirror_cmd_def adb_devices_cmd_def stay_awake_cmd_def)

lemma sample_listing_resolved:
  "fst (list_devices (sample_world sample_listing en mr dis) []) = Inr [py ''ABC123'']"
  "serial_or_first None [py ''ABC123''] = py ''ABC123''"
  "py ''ABC123'' \<in> set [py ''ABC123'']"
  "[py ''ABC123''] \<noteq> []"
  by (simp_all only: sample_world_devices parse_sample_listing fst_conv serial_or_first_def
      option.case list.sel list.set insertI1 not_Cons_self2 simp_thms)

text \<open>
  Claim C2, as the specification words it, fails when the command that switches the setting
  on exits with a status that is not 0: \<^verbatim>\<open>set_stay_awake\<close> raises, so the mirroring tool
  is never invoked and the setting is never switched off; \<^verbatim>\<open>main\<close> prints the error and
  returns 1. In the sample world below one ready device is discovered, it is the resolved
  one, and switching the setting on exits with 1.
\<close>

theorem C2_counterexample:
  "stay_awake (start_args\<lparr>stay_awake := True\<rparr>)
   \<and> fst (list_devices (sample_world sample_listing 1 0 0) []) = Inr [py ''ABC123'']
   \<and> serial_or_first (serial (start_args\<lparr>stay_awake := True\<rparr>)) [py ''ABC123'']
      = py ''ABC123''
   \<and> py ''ABC123'' \<in> set [py ''ABC123'']
   \<and> main (sample_world sample_listing 1 0 0) (start_args\<lparr>stay_awake := True\<rparr>) []
      = (Inr 1,
         [Run adb_devices_cmd True \<lparr>returncode = 0, stdout = sample_listing, stderr = []\<rparr>,
          Run (stay_awake_cmd (py ''ABC123'') True) False
            \<lparr>returncode = 1, stdout = [], stderr = []\<rparr>,
          PrintErr (py ''Error: '' @ stay_awake_failed_message)])
   \<and> commands_run (snd (main (sample_world sample_listing 1 0 0)
                           (start_args\<lparr>stay_awake := True\<rparr>) []))
      = [adb_devices_cmd, stay_awake_cmd (py ''ABC123'') True]
   \<and> \<not> list_ex mirror_run (snd (main (sample_world sample_listing 1 0 0)
                                    (start_args\<lparr>stay_awake := True\<rparr>) []))"
proof -
  let ?w = "sample_world sample_listing 1 0 0"
  let ?a = "start_args\<lparr>stay_awake := True\<rparr>"
  let ?p = "\<lparr>name = py ''balanced'', bitrate = py ''8M'', max_fps = 60, codec = py ''h264''\<rparr>"
  have p: "profiles_getitem (profile ?a) = Inr ?p"
    using profiles_balanced by (simp add: start_args_def)
  have f: "stay_awake ?a" "serial ?a = None" "command ?a = py ''start''"
    by (simp_all add: start_args_def)
  have d: "serial_or_first (serial ?a) [py ''ABC123''] = py ''ABC123''"
    by (simp only: f sample_listing_resolved)
  have s: "start_stream ?w ?a []
      = (Inl (RuntimeError stay_awake_failed_message),
         [Run adb_devices_cmd True \<lparr>returncode = 0, stdout = sample_listing, stderr = []\<rparr>,
          Run (stay_awake_cmd (py ''ABC123'') True) False
            \<lparr>returncode = 1, stdout = [], stderr = []\<rparr>])"
    using start_stream_run [OF p sample_listing_resolved(1)] d f(1)
    by (simp add: snd_list_devices set_stay_awake_run sample_world_answers)
  have m: "main ?w ?a []
      = (Inr 1,
         [Run adb_devices_cmd True \<lparr>returncode = 0, stdout = sample_listing, stderr = []\<rparr>,
          Run (stay_awake_cmd (py ''ABC123'') True) False
            \<lparr>returncode = 1, stdout = [], stderr = []\<rparr>,
          PrintErr (py ''Error: '' @ stay_awake_failed_message)])"
    using main_start_run [where w = ?w and a = ?a and t = "[]"] s f(3)
    by (simp add: sample_world_on_path)
  have c: "commands_run (snd (main ?w ?a [])) = [adb_devices_cmd, stay_awake_cmd (py ''ABC123'') True]"
    using m by simp
  have l: "\<not> list_ex mirror_run (snd (main ?w ?a []))"
    using m by simp
  from f(1) sample_listing_resolved(1) d sample_listing_resolved(3) m c l show ?thesis
    by (intro conjI)
qed

text \<open>
  Claim C2, amended. A session started with \<^verbatim>\<open>--stay-awake\<close> in which at least one device
  is discovered, the resolved device is among the discovered ones, and the command that
  switches the setting on exits with 0 (the profile is one of the table): after the listing
  query \<^verbatim>\<open>start_stream\<close> runs the command that switches the setting on, then the mirroring
  tool, then the command that switches the setting off, in that order and each once,
  whatever the mirroring tool returns; its result is the exit code of the mirroring tool,
  also when switching the setting off exits with another status than 0, which adds only a
  warning on the error stream; and \<^verbatim>\<open>main\<close> returns the same for the command \<^verbatim>\<open>start\<close> when
  both tools are installed.
\<close>

theorem C2_stay_awake_order:
  assumes "profiles_getitem (profile a) = Inr p"
    and "fst (list_devices w t) = Inr ds"
    and "ds \<noteq> []"
    and "serial_or_first (serial a) ds = d"
    and "d \<in> set ds"
    and "stay_awake a"
    and "returncode (answer w (snd (list_devices w t)) (stay_awake_cmd d True)) = 0"
  shows "start_stream w a t =
          (let t1 = t @ [Run adb_devices_cmd True (answer w t adb_devices_cmd)];
               t2 = t1 @ [Run (stay_awake_cmd d True) False (answer w t1 (stay_awake_cmd d True)),
                          Print (starting_message p d)];
               mr = answer w t2 (mirror_cmd d p a);
               t3 = t2 @ [Run (mirror_cmd d p a) False mr];
               dis = answer w t3 (stay_awake_cmd d False)
           in (Inr (returncode mr),
               t3 @ [Run (stay_awake_cmd d False) False dis]
                  @ (if returncode dis \<noteq> 0 then [PrintErr restore_warning] else [])))
     \<and> commands_run (drop (length t) (snd (start_stream w a t)))
         = [adb_devices_cmd, stay_awake_cmd d True, mirror_cmd d p a, stay_awake_cmd d False]
     \<and> (command a = py ''start'' \<and> on_path w (py ''adb'') \<and> on_path w (py ''scrcpy'') \<longrightarrow>
          main w a t = start_stream w a t)"
proof -
  have s: "start_stream w a t =
          (let t1 = t @ [Run adb_devices_cmd True (answer w t adb_devices_cmd)];
               t2 = t1 @ [Run (stay_awake_cmd d True) False (answer w t1 (stay_awake_cmd d True)),
                          Print (starting_message p d)];
               mr = answer w t2 (mirror_cmd d p a);
               t3 = t2 @ [Run (mirror_cmd d p a) False mr];
               dis = answer w t3 (stay_awake_cmd d False)
           in (Inr (returncode mr),
               t3 @ [Run (stay_awake_cmd d False) False dis]
                  @ (if returncode dis \<noteq> 0 then [PrintErr restore_warning] else [])))"
    using assms(3-7)
    by (simp add: start_stream_run [OF assms(1,2)] snd_list_devices set_stay_awake_run
        stream_run restore_stay_awake_run Let_def)
  have c: "commands_run (drop (length t) (snd (start_stream w a t)))
         = [adb_devices_cmd, stay_awake_cmd d True, mirror_cmd d p a, stay_awake_cmd d False]"
    by (simp add: s Let_def)
  have m: "command a = py ''start'' \<and> on_path w (py ''adb'') \<and> on_path w (py ''scrcpy'') \<longrightarrow>
          main w a t = start_stream w a t"
    by (simp add: main_start_run s Let_def)
  from s c m show ?thesis
    by (intro conjI)
qed

text \<open>In the witness the mirroring tool exits with 7 and switching the setting off with 1.\<close>

theorem C2_stay_awake_order_witness:
  "profiles_getitem (profile (start_args\<lparr>stay_awake := True\<rparr>))
     = Inr \<lparr>name = py ''balanced'', bitrate = py ''8M'', max_fps = 60, codec = py ''h264''\<rparr>
   \<and> fst (list_devices (sample_world sample_listing 0 7 1) []) = Inr [py ''ABC123'']
   \<and> serial_or_first (serial (start_args\<lparr>stay_awake := True\<rparr>)) [py ''ABC123'']
      = py ''ABC123''
   \<and> stay_awake (start_args\<lparr>stay_awake := True\<rparr>)
   \<and> returncode (answer (sample_world sample_listing 0 7 1)
                   (snd (list_devices (sample_world sample_listing 0 7 1) []))
                   (stay_awake_cmd (py ''ABC123'') True)) = 0
   \<and> fst (main (sample_world sample_listing 0 7 1) (start_args\<lparr>stay_awake := True\<rparr>) [])
      = Inr 7
   \<and> commands_run (snd (main (sample_world sample_listing 0 7 1)
                           (start_args\<lparr>stay_awake := True\<rparr>) []))
      = [[py ''adb'', py ''devices''],
         [py ''adb'', py ''-s'', py ''ABC123'', py ''shell'', py ''settings'', py ''put'',
          py ''global'', py ''stay_on_while_plugged_in'', py ''3''],
         [py ''scrcpy'', py ''--serial'', py ''ABC123'', py ''--video-bit-rate'', py ''8M'',
          py ''--max-fps'', py ''60'', py ''--video-codec'', py ''h264''],
         [py ''adb'', py ''-s'', py ''ABC123'', py ''shell'', py ''settings'', py ''put'',
          py ''global'', py ''stay_on_while_plugged_in'', py ''0'']]
   \<and> last (snd (main (sample_world sample_listing 0 7 1)
                     (start_args\<lparr>stay_awake := True\<rparr>) []))
      = PrintErr restore_warning"
proof -
  let ?w = "sample_world sample_listing 0 7 1"
  let ?a = "start_args\<lparr>stay_awake := True\<rparr>"
  let ?p = "\<lparr>name = py ''balanced'', bitrate = py ''8M'', max_fps = 60, codec = py ''h264''\<rparr>"
  have p: "profiles_getitem (profile ?a) = Inr ?p"
    using profiles_balanced by (simp add: start_args_def)
  have f: "stay_awake ?a" "serial ?a = None" "command ?a = py ''start''"
    by (simp_all add: start_args_def)
  have d: "serial_or_first (serial ?a) [py ''ABC123''] = py ''ABC123''"
    by (simp only: f sample_listing_resolved)
  have e: "returncode (answer ?w (snd (list_devices ?w [])) (stay_awake_cmd (py ''ABC123'') True)) = 0"
    by (simp add: sample_world_answers)
  note c2 = C2_stay_awake_order [OF p sample_listing_resolved(1,4) d sample_listing_resolved(3)
      f(1) e]
  have m: "main ?w ?a [] = start_stream ?w ?a []"
    using c2 [THEN conjunct2, THEN conjunct2] f(3) by (simp add: sample_world_on_path)
  have mc: "mirror_cmd (py ''ABC123'') ?p ?a
      = [py ''scrcpy'', py ''--serial'', py ''ABC123'', py ''--video-bit-rate'', py ''8M'',
         py ''--max-fps'', py ''60'', py ''--video-codec'', py ''h264'']"
    by (simp add: mirror_cmd_def start_args_def str_int_samples)
  have r: "fst (main ?w ?a []) = Inr 7"
    using c2 [THEN conjunct1] m by (simp add: Let_def sample_world_answers)
  have c: "commands_run (snd (main ?w ?a []))
      = [[py ''adb'', py ''devices''],
         [py ''adb'', py ''-s'', py ''ABC123'', py ''shell'', py ''settings'', py ''put'',
          py ''global'', py ''stay_on_while_plugged_in'', py ''3''],
         [py ''scrcpy'', py ''--serial'', py ''ABC123'', py ''--video-bit-rate'', py ''8M'',
          py ''--max-fps'', py ''60'', py ''--video-codec'', py ''h264''],
         [py ''adb'', py ''-s'', py ''ABC123'', py ''shell'', py ''settings'', py ''put'',
          py ''global'', py ''stay_on_while_plugged_in'', py ''0'']]"
    using c2 [THEN conjunct2, THEN conjunct1] m mc
    by (simp add: adb_devices_cmd_def stay_awake_cmd_def)
  have l: "last (snd (main ?w ?a [])) = PrintErr restore_warning"
    using c2 [THEN conjunct1] m by (simp add: Let_def sample_world_answers)
  from p sample_listing_resolved(1) d f(1) e r c l show ?thesis
    by (intro conjI)
qed

subsection \<open>The exit status of \<^verbatim>\<open>start\<close>\<close>

text \<open>A missing tool: \<^verbatim>\<open>main\<close> prints the error and returns 1 before anything is run.\<close>

lemma main_missing:
  assumes "command a = py ''start''"
    and "\<not> on_path w (py ''adb'') \<or> \<not> on_path w (py ''scrcpy'')"
  shows "main w a t =
     (Inr 1, t @ [PrintErr (py ''Error: '' @ missing_binary_message
                    (if \<not> on_path w (py ''adb'') then py ''adb'' else py ''scrcpy''))])"
  using assms by (auto simp: main_def main_try_def require_binary_def)

text \<open>A listing query that exits with another status than 0.\<close>

lemma start_stream_failed:
  assumes "returncode (answer w t adb_devices_cmd) \<noteq> 0"
    and "profiles_getitem (profile a) = Inr p"
  shows "start_stream w a t =
     (Inl (RuntimeError (query_failed_message (stderr (answer w t adb_devices_cmd)))),
      t @ [Run adb_devices_cmd True (answer w t adb_devices_cmd)])"
  using assms by (simp add: start_stream_def list_devices_run)

text \<open>Whenever the mirroring tool was run, the exit status is the code it returned.\<close>

lemma main_mirror:
  assumes "command a = py ''start''"
    and "profiles_getitem (profile a) = Inr p"
    and "Run cmd cap r \<in> set (drop (length t) (snd (main w a t)))"
    and "take 1 cmd = [py ''scrcpy'']"
  shows "fst (main w a t) = Inr (returncode r)"
proof (cases "on_path w (py ''adb'') \<and> on_path w (py ''scrcpy'')")
  case False
  then have "\<not> on_path w (py ''adb'') \<or> \<not> on_path w (py ''scrcpy'')" by simp
  from main_missing [OF assms(1) this] assms(3) show ?thesis by simp
next
  case True
  then have m: "main w a t =
     (case start_stream w a t of
        (Inl (RuntimeError m), t1) \<Rightarrow> (Inr 1, t1 @ [PrintErr (py ''Error: '' @ m)])
      | r \<Rightarrow> r)"
    using assms(1) by (simp add: main_start_run)
  show ?thesis
  proof (cases "returncode (answer w t adb_devices_cmd) \<noteq> 0")
    case True
    with assms(3,4) show ?thesis
      by (auto simp: m start_stream_failed [OF True assms(2)] adb_devices_cmd_def)
  next
    case False
    then have ld: "fst (list_devices w t) = Inr (parse_devices (stdout (answer w t adb_devices_cmd)))"
      by (simp add: list_devices_run)
    show ?thesis
      using assms(3,4)
      by (auto simp: m start_stream_run [OF assms(2) ld] snd_list_devices set_stay_awake_run
          stream_run restore_stay_awake_run adb_devices_cmd_def stay_awake_cmd_def
          split: if_splits)
  qed
qed

lemma failing_world_answer:
  "answer failing_world tr cmd = \<lparr>returncode = 1, stdout = [], stderr = py ''adb: no server''\<rparr>"
  "on_path failing_world b"
  by (simp_all add: failing_world_def)

text \<open>
  Claim C4. A \<^verbatim>\<open>start\<close> invocation (the profile is one of the table). Whenever the trace of
  \<^verbatim>\<open>main\<close> contains a run of the mirroring tool, the exit status is the code that run
  returned; and the streaming step is reached, with the mirroring command of the resolved
  device in the trace, when both tools are installed, the listing succeeds, the resolved
  device is among the discovered ones, and switching the setting on, if asked for, exits with
  0. The exit status is 2 when no device is discovered or the resolved device is not among the
  discovered ones. It is 1 when one of the two tools is missing, when switching the setting
  on exits with another status than 0, and when the listing query does.
\<close>

theorem C4_exit_status:
  assumes "command a = py ''start''"
    and "profiles_getitem (profile a) = Inr p"
  shows "(\<forall>cmd cap r.
            Run cmd cap r \<in> set (drop (length t) (snd (main w a t)))
            \<and> take 1 cmd = [py ''scrcpy'']
            \<longrightarrow> fst (main w a t) = Inr (returncode r))
     \<and> (on_path w (py ''adb'') \<and> on_path w (py ''scrcpy'')
          \<and> fst (list_devices w t) = Inr ds \<and> ds \<noteq> []
          \<and> serial_or_first (serial a) ds = d \<and> d \<in> set ds
          \<and> (stay_awake a \<longrightarrow>
                returncode (answer w (snd (list_devices w t)) (stay_awake_cmd d True)) = 0)
        \<longrightarrow> (\<exists>r. Run (mirror_cmd d p a) False r \<in> set (drop (length t) (snd (main w a t)))
                  \<and> fst (main w a t) = Inr (returncode r)))
     \<and> (on_path w (py ''adb'') \<and> on_path w (py ''scrcpy'')
          \<and> fst (list_devices w t) = Inr ds
          \<and> (ds = [] \<or> serial_or_first (serial a) ds \<notin> set ds)
        \<longrightarrow> fst (main w a t) = Inr 2)
     \<and> (\<not> on_path w (py ''adb'') \<or> \<not> on_path w (py ''scrcpy'')
        \<longrightarrow> fst (main w a t) = Inr 1)
     \<and> (on_path w (py ''adb'') \<and> on_path w (py ''scrcpy'')
          \<and> fst (list_devices w t) = Inr ds \<and> ds \<noteq> []
          \<and> serial_or_first (serial a) ds = d \<and> d \<in> set ds
          \<and> stay_awake a
          \<and> returncode (answer w (snd (list_devices w t)) (stay_awake_cmd d True)) \<noteq> 0
        \<longrightarrow> fst (main w a t) = Inr 1)
     \<and> (on_path w (py ''adb'') \<and> on_path w (py ''scrcpy'')
          \<and> returncode (answer w t adb_devices_cmd) \<noteq> 0
        \<longrightarrow> fst (main w a t) = Inr 1)"
proof (intro conjI allI impI)
  fix cmd cap r
  assume "Run cmd cap r \<in> set (drop (length t) (snd (main w a t)))
            \<and> take 1 cmd = [py ''scrcpy'']"
  then show "fst (main w a t) = Inr (returncode r)"
    using main_mirror [OF assms] by blast
next
  assume h: "on_path w (py ''adb'') \<and> on_path w (py ''scrcpy'')
          \<and> fst (list_devices w t) = Inr ds \<and> ds \<noteq> []
          \<and> serial_or_first (serial a) ds = d \<and> d \<in> set ds
          \<and> (stay_awake a \<longrightarrow>
                returncode (answer w (snd (list_devices w t)) (stay_awake_cmd d True)) = 0)"
  then have ld: "fst (list_devices w t) = Inr ds" by simp
  let ?before = "snd (list_devices w t)
        @ (if stay_awake a
           then [Run (stay_awake_cmd d True) False
                   (answer w (snd (list_devices w t)) (stay_awake_cmd d True))]
           else [])
        @ [Print (starting_message p d)]"
  from h assms(1)
  have "Run (mirror_cmd d p a) False (answer w ?before (mirror_cmd d p a))
          \<in> set (drop (length t) (snd (main w a t)))
        \<and> fst (main w a t) = Inr (returncode (answer w ?before (mirror_cmd d p a)))"
    by (simp add: main_start_run start_stream_run [OF assms(2) ld] snd_list_devices
        set_stay_awake_run stream_run restore_stay_awake_run)
  then show "\<exists>r. Run (mirror_cmd d p a) False r
                       \<in> set (drop (length t) (snd (main w a t)))
                  \<and> fst (main w a t) = Inr (returncode r)"
    by (rule exI)
next
  assume h: "on_path w (py ''adb'') \<and> on_path w (py ''scrcpy'')
          \<and> fst (list_devices w t) = Inr ds
          \<and> (ds = [] \<or> serial_or_first (serial a) ds \<notin> set ds)"
  then have ld: "fst (list_devices w t) = Inr ds" by simp
  from h assms(1) show "fst (main w a t) = Inr 2"
    by (auto simp: main_start_run start_stream_run [OF assms(2) ld])
next
  assume "\<not> on_path w (py ''adb'') \<or> \<not> on_path w (py ''scrcpy'')"
  from main_missing [OF assms(1) this] show "fst (main w a t) = Inr 1"
    by simp
next
  assume h: "on_path w (py ''adb'') \<and> on_path w (py ''scrcpy'')
          \<and> fst (list_devices w t) = Inr ds \<and> ds \<noteq> []
          \<and> serial_or_first (serial a) ds = d \<and> d \<in> set ds
          \<and> stay_awake a
          \<and> returncode (answer w (snd (list_devices w t)) (stay_awake_cmd d True)) \<noteq> 0"
  then have ld: "fst (list_devices w t) = Inr ds" by simp
  from h assms(1) show "fst (main w a t) = Inr 1"
    by (simp add: main_start_run start_stream_run [OF assms(2) ld])
next
  assume h: "on_path w (py ''adb'') \<and> on_path w (py ''scrcpy'')
          \<and> returncode (answer w t adb_devices_cmd) \<noteq> 0"
  then have f: "returncode (answer w t adb_devices_cmd) \<noteq> 0" by simp
  from h assms(1) show "fst (main w a t) = Inr 1"
    by (simp add: main_start_run start_stream_failed [OF f assms(2)])
qed

text \<open>The witness has one input for each case: the mirroring tool exits with 7; no device;
  the mirroring tool is not installed; switching the setting on exits with 1; the listing
  query exits with 1.\<close>

theorem C4_exit_status_witness:
  "command start_args = py ''start''
   \<and> profiles_getitem (profile start_args)
      = Inr \<lparr>name = py ''balanced'', bitrate = py ''8M'', max_fps = 60, codec = py ''h264''\<rparr>
   \<and> Run (mirror_cmd (py ''ABC123'')
            \<lparr>name = py ''balanced'', bitrate = py ''8M'', max_fps = 60, codec = py ''h264''\<rparr>
            start_args) False \<lparr>returncode = 7, stdout = [], stderr = []\<rparr>
        \<in> set (snd (main (sample_world sample_listing 0 7 0) start_args []))
   \<and> fst (main (sample_world sample_listing 0 7 0) start_args []) = Inr 7
   \<and> fst (list_devices (sample_world (adb_header @ [10]) 0 0 0) []) = Inr []
   \<and> fst (main (sample_world (adb_header @ [10]) 0 0 0) start_args []) = Inr 2
   \<and> \<not> on_path bare_world (py ''scrcpy'')
   \<and> fst (main bare_world start_args []) = Inr 1
   \<and> stay_awake (start_args\<lparr>stay_awake := True\<rparr>)
   \<and> returncode (answer (sample_world sample_listing 1 0 0)
                   (snd (list_devices (sample_world sample_listing 1 0 0) []))
                   (stay_awake_cmd (py ''ABC123'') True)) = 1
   \<and> fst (main (sample_world sample_listing 1 0 0) (start_args\<lparr>stay_awake := True\<rparr>) [])
      = Inr 1
   \<and> returncode (answer failing_world [] adb_devices_cmd) = 1
   \<and> fst (main failing_world start_args []) = Inr 1"
proof -
  let ?p = "\<lparr>name = py ''balanced'', bitrate = py ''8M'', max_fps = 60, codec = py ''h264''\<rparr>"
  let ?w1 = "sample_world sample_listing 0 7 0"
  let ?w2 = "sample_world (adb_header @ [10]) 0 0 0"
  let ?w4 = "sample_world sample_listing 1 0 0"
  let ?a4 = "start_args\<lparr>stay_awake := True\<rparr>"
  have p: "profiles_getitem (profile start_args) = Inr ?p"
    using profiles_balanced by (simp add: start_args_def)
  have p4: "profiles_getitem (profile ?a4) = Inr ?p"
    using profiles_balanced by (simp add: start_args_def)
  have f4: "command ?a4 = py ''start''" "stay_awake ?a4" "serial ?a4 = None"
    by (simp_all add: start_args_def)
  have s1: "start_stream ?w1 start_args []
      = stream ?w1 start_args ?p (py ''ABC123'') (snd (list_devices ?w1 []))"
    using start_stream_run [OF p sample_listing_resolved(1) [where en = 0 and mr = 7 and dis = 0]]
      sample_listing_resolved(2)
    by (simp add: start_args_fields)
  have m1: "main ?w1 start_args [] = start_stream ?w1 start_args []"
    using main_start_run [where w = ?w1 and a = start_args and t = "[]"] s1
    by (simp add: sample_world_on_path start_args_fields stream_run)
  have mem: "Run (mirror_cmd (py ''ABC123'') ?p start_args) False
               \<lparr>returncode = 7, stdout = [], stderr = []\<rparr>
             \<in> set (snd (main ?w1 start_args []))"
    using m1 s1 by (simp add: stream_run start_args_fields sample_world_answers)
  have r1: "fst (main ?w1 start_args []) = Inr 7"
    using C4_exit_status [OF start_args_fields(1) p, where w = ?w1 and t = "[]",
        THEN conjunct1, rule_format,
        of "mirror_cmd (py ''ABC123'') ?p start_args" False
          "\<lparr>returncode = 7, stdout = [], stderr = []\<rparr>"]
      mem
    by (simp add: mirror_cmd_def)
  have ds2: "fst (list_devices ?w2 []) = Inr []"
    by (simp only: sample_world_devices parse_header_listing fst_conv)
  have r2: "fst (main ?w2 start_args []) = Inr 2"
    using C4_exit_status [OF start_args_fields(1) p, where w = ?w2 and t = "[]" and ds = "[]",
        THEN conjunct2, THEN conjunct2, THEN conjunct1]
      ds2
    by (simp add: sample_world_on_path)
  have n3: "\<not> on_path bare_world (py ''scrcpy'')"
    by (simp add: bare_world_def)
  have r3: "fst (main bare_world start_args []) = Inr 1"
    using C4_exit_status [OF start_args_fields(1) p, where w = bare_world and t = "[]",
        THEN conjunct2, THEN conjunct2, THEN conjunct2, THEN conjunct1]
      n3
    by simp
  have e4: "returncode (answer ?w4 (snd (list_devices ?w4 [])) (stay_awake_cmd (py ''ABC123'') True))
              = 1"
    by (simp add: sample_world_answers)
  have d4: "serial_or_first (serial ?a4) [py ''ABC123''] = py ''ABC123''"
    by (simp only: f4 sample_listing_resolved)
  have r4: "fst (main ?w4 ?a4 []) = Inr 1"
    using C4_exit_status [OF f4(1) p4, where w = ?w4 and t = "[]" and ds = "[py ''ABC123'']"
        and d = "py ''ABC123''",
        THEN conjunct2, THEN conjunct2, THEN conjunct2, THEN conjunct2, THEN conjunct1]
      sample_listing_resolved(1) [where en = 1 and mr = 0 and dis = 0] d4 f4(2) e4
    by (simp add: sample_world_on_path)
  have e5: "returncode (answer failing_world [] adb_devices_cmd) = 1"
    by (simp add: failing_world_answer)
  have r5: "fst (main failing_world start_args []) = Inr 1"
    using C4_exit_status [OF start_args_fields(1) p, where w = failing_world and t = "[]",
        THEN conjunct2, THEN conjunct2, THEN conjunct2, THEN conjunct2, THEN conjunct2]
      e5
    by (simp add: failing_world_answer)
  from start_args_fields(1) p mem r1 ds2 r2 n3 r3 f4(2) e4 r4 e5 r5 show ?thesis
    by (intro conjI)
qed

subsection \<open>The command \<^verbatim>\<open>devices\<close>\<close>




end
